theory Spec2Isabelle
  imports Main
begin

section \<open>Values shared by the two source files\<close>

text \<open>
  A JavaScript exception is a value. \<open>AggregateError\<close> carries the ordered list of its
  underlying causes and its message. A \<open>TypeError\<close> is what the engine throws where the code
  reads a property of \<open>undefined\<close>; its message is the engine's.
\<close>

datatype jserror =
    Error string
  | TypeError string
  | AggregateError "jserror list" string

text \<open>
  \<open>new Date(s)\<close>: the date object built from the string \<open>s\<close>. Nothing below depends on
  two strings giving different dates.
\<close>

datatype Date = NewDate string

subsection \<open>Effects: a trace of calls and a result\<close>

text \<open>
  An asynchronous function is modelled by the list of outward calls it makes, in the order
  it makes them, and what it settles to: \<open>Inl e\<close> when it rejects with \<open>e\<close>, \<open>Inr v\<close> when
  it fulfils with \<open>v\<close>. The capabilities of the host (git, the transport, the repository
  registry) are functions that say how each call settles.
\<close>

definition io_return :: "'a \<Rightarrow> 'e list \<times> (jserror + 'a)" where
  "io_return x = ([], Inr x)"

definition io_throw :: "jserror \<Rightarrow> 'e list \<times> (jserror + 'a)" where
  "io_throw e = ([], Inl e)"

definition io_call :: "'e \<Rightarrow> jserror + 'a \<Rightarrow> 'e list \<times> (jserror + 'a)" where
  "io_call ev r = ([ev], r)"

definition io_await :: "jserror + 'a \<Rightarrow> 'e list \<times> (jserror + 'a)" where
  "io_await r = ([], r)"

definition io_bind ::
  "'e list \<times> (jserror + 'a) \<Rightarrow> ('a \<Rightarrow> 'e list \<times> (jserror + 'b)) \<Rightarrow> 'e list \<times> (jserror + 'b)" where
  "io_bind m f =
     (case m of
        (t, Inl e) \<Rightarrow> (t, Inl e)
      | (t, Inr x) \<Rightarrow> (case f x of (t', r) \<Rightarrow> (t @ t', r)))"

text \<open>
  \<open>Promise.allSettled\<close>: every promise runs to its end, none rejects the whole; the
  outcomes are collected in the order of the promises.
\<close>

definition io_settled :: "'e list \<times> (jserror + 'a) \<Rightarrow> 'e list \<times> (jserror + (jserror + 'a))" where
  "io_settled m = (fst m, Inr (snd m))"

definition io_allSettled ::
  "('e list \<times> (jserror + 'a)) list \<Rightarrow> 'e list \<times> (jserror + (jserror + 'a) list)" where
  "io_allSettled ms = (concat (map fst ms), Inr (map snd ms))"

text \<open>
  \<open>getSettledValue\<close> (system/promise): the value of a fulfilled outcome, \<open>undefined\<close> for
  a rejected one. \<open>None\<close> is \<open>undefined\<close>.
\<close>

fun getSettledValue :: "jserror + 'a option \<Rightarrow> 'a option" where
  "getSettledValue (Inl e) = None"
| "getSettledValue (Inr v) = v"

section \<open>git/models/issue.ts: the data\<close>

record ProviderReference =
  pr_id :: string
  pr_name :: string
  pr_domain :: string
  pr_icon :: string

datatype IssueOrPullRequestType = Type_issue | Type_pullrequest

datatype IssueOrPullRequestState = State_opened | State_closed | State_merged

datatype RepositoryAccessLevel = Admin | Maintain | Write | Triage | Read | NoAccess

text \<open>
  An interface is a record scheme: a value may carry more fields than the interface
  names (the provider of an issue may be any object with the four fields of
  \<open>ProviderReference\<close>), and \<open>IssueShape\<close> extends \<open>IssueOrPullRequest\<close>.
\<close>

record 'p IssueOrPullRequest =
  iop_type :: IssueOrPullRequestType
  iop_provider :: "'p ProviderReference_scheme"
  iop_id :: string
  iop_nodeId :: "string option"
  iop_title :: string
  iop_url :: string
  iop_createdDate :: Date
  iop_updatedDate :: Date
  iop_closedDate :: "Date option"
  iop_closed :: bool
  iop_state :: IssueOrPullRequestState
  iop_commentsCount :: "int option"
  iop_thumbsUpCount :: "int option"

record IssueLabel =
  il_color :: "string option"
  il_name :: string

record IssueMember =
  im_id :: string
  im_name :: string
  im_avatarUrl :: "string option"
  im_url :: "string option"

record IssueRepository =
  ir_owner :: string
  ir_repo :: string
  ir_accessLevel :: "RepositoryAccessLevel option"
  ir_url :: "string option"

record 'p IssueShape = "'p IssueOrPullRequest" +
  is_author :: IssueMember
  is_assignees :: "IssueMember list"
  is_repository :: "IssueRepository option"
  is_labels :: "IssueLabel list option"
  is_body :: "string option"

section \<open>git/models/issue.ts: the serializers\<close>

definition serializeIssueOrPullRequest ::
  "('p, 'm) IssueOrPullRequest_scheme \<Rightarrow> unit IssueOrPullRequest" where
  "serializeIssueOrPullRequest v =
     \<lparr> iop_type = iop_type v,
       iop_provider =
         \<lparr> pr_id = pr_id (iop_provider v),
           pr_name = pr_name (iop_provider v),
           pr_domain = pr_domain (iop_provider v),
           pr_icon = pr_icon (iop_provider v) \<rparr>,
       iop_id = iop_id v,
       iop_nodeId = iop_nodeId v,
       iop_title = iop_title v,
       iop_url = iop_url v,
       iop_createdDate = iop_createdDate v,
       iop_updatedDate = iop_updatedDate v,
       iop_closedDate = iop_closedDate v,
       iop_closed = iop_closed v,
       iop_state = iop_state v,
       iop_commentsCount = None,
       iop_thumbsUpCount = None \<rparr>"

definition serializeIssue :: "('p, 'm) IssueShape_scheme \<Rightarrow> unit IssueShape" where
  "serializeIssue v =
     \<lparr> iop_type = iop_type v,
       iop_provider =
         \<lparr> pr_id = pr_id (iop_provider v),
           pr_name = pr_name (iop_provider v),
           pr_domain = pr_domain (iop_provider v),
           pr_icon = pr_icon (iop_provider v) \<rparr>,
       iop_id = iop_id v,
       iop_nodeId = iop_nodeId v,
       iop_title = iop_title v,
       iop_url = iop_url v,
       iop_createdDate = iop_createdDate v,
       iop_updatedDate = iop_updatedDate v,
       iop_closedDate = iop_closedDate v,
       iop_closed = iop_closed v,
       iop_state = iop_state v,
       iop_commentsCount = iop_commentsCount v,
       iop_thumbsUpCount = iop_thumbsUpCount v,
       is_author =
         \<lparr> im_id = im_id (is_author v),
           im_name = im_name (is_author v),
           im_avatarUrl = im_avatarUrl (is_author v),
           im_url = im_url (is_author v) \<rparr>,
       is_assignees =
         map (\<lambda>assignee.
               \<lparr> im_id = im_id assignee,
                 im_name = im_name assignee,
                 im_avatarUrl = im_avatarUrl assignee,
                 im_url = im_url assignee \<rparr>)
           (is_assignees v),
       is_repository =
         (case is_repository v of
            None \<Rightarrow> None
          | Some repository \<Rightarrow>
              Some \<lparr> ir_owner = ir_owner repository,
                     ir_repo = ir_repo repository,
                     ir_accessLevel = None,
                     ir_url = ir_url repository \<rparr>),
       is_labels =
         (case is_labels v of
            None \<Rightarrow> None
          | Some labels \<Rightarrow>
              Some (map (\<lambda>label. \<lparr> il_color = il_color label, il_name = il_name label \<rparr>) labels)),
       is_body = is_body v \<rparr>"

section \<open>The data of plus/drafts/draftsService.ts\<close>

subsection \<open>Repositories and their identities\<close>

record Repository =
  repo_id :: string
  repo_path :: string
  repo_uri :: string

record RemoteDescriptor =
  rd_url :: "string option"
  rd_domain :: "string option"
  rd_path :: "string option"

record ProviderDescriptor =
  pd_id :: "string option"
  pd_domain :: "string option"
  pd_repoDomain :: "string option"
  pd_repoName :: "string option"
  pd_repoOwnerDomain :: "string option"

text \<open>
  \<open>RepositoryIdentityDescriptor\<close>, the key the repository registry looks a repository up
  by; \<open>RepositoryIdentity\<close> extends it. The wire payload \<open>RepositoryIdentityResponse\<close>
  has the same fields with its timestamps still strings.
\<close>

record RepositoryIdentityDescriptor =
  rid_name :: "string option"
  rid_initialCommitSha :: "string option"
  rid_remote :: "RemoteDescriptor option"
  rid_provider :: "ProviderDescriptor option"

record RepositoryIdentity = RepositoryIdentityDescriptor +
  ri_id :: string
  ri_createdAt :: Date
  ri_updatedAt :: Date

record RepositoryIdentityResponse =
  rir_id :: string
  rir_createdAt :: string
  rir_updatedAt :: string
  rir_name :: "string option"
  rir_initialCommitSha :: "string option"
  rir_remote :: "RemoteDescriptor option"
  rir_provider :: "ProviderDescriptor option"

text \<open>The sum type \<open>Repository | RepositoryIdentity\<close>; \<open>isRepository\<close> tells the two apart.\<close>

datatype RepositoryOrIdentity = IsRepository Repository | IsIdentity RepositoryIdentity

fun isRepository :: "RepositoryOrIdentity option \<Rightarrow> bool" where
  "isRepository (Some (IsRepository r)) = True"
| "isRepository _ = False"

record GetRepositoryOptions =
  gro_openIfNeeded :: "bool option"
  gro_keepOpen :: "bool option"
  gro_prompt :: "bool option"
  gro_skipRefValidation :: "bool option"

record Uri =
  uri_scheme :: string
  uri_authority :: string
  uri_path :: string
  uri_query :: string
  uri_fragment :: string

text \<open>The argument of \<open>uri.with\<close>: the components to replace; an absent one is kept.\<close>

record UriChange =
  uc_scheme :: "string option"
  uc_authority :: "string option"
  uc_path :: "string option"
  uc_query :: "string option"
  uc_fragment :: "string option"

subsection \<open>What git answers\<close>

record RemoteProvider =
  rp_gkProviderId :: "string option"
  rp_owner :: "string option"
  rp_repoName :: "string option"

record GitRemote =
  gr_url :: string
  gr_domain :: string
  gr_path :: string
  gr_provider :: RemoteProvider

record GitUser =
  gu_name :: "string option"
  gu_email :: "string option"

record GitBranch =
  gb_name :: string

record GitDiff =
  gd_contents :: string

record GitCommit =
  gc_sha :: string

record GitFileChange =
  gf_path :: string
  gf_status :: string

record GitDiffFiles =
  gdf_files :: "GitFileChange list"

record DraftPatchFileChange = GitFileChange +
  dfc_gkRepositoryId :: string

subsection \<open>Requests\<close>

record Revision =
  rev_to :: string
  rev_from :: string

record CreateDraftChange =
  chg_revision :: Revision
  chg_contents :: "string option"
  chg_repository :: Repository
  chg_prEntityId :: "string option"

record RepositoryIdentityRequest =
  rq_initialCommitSha :: "string option"
  rq_remote :: "RemoteDescriptor option"
  rq_provider :: "ProviderDescriptor option"

record CreateDraftPatchRequest =
  cpr_baseCommitSha :: string
  cpr_baseBranchName :: string
  cpr_gitRepoData :: RepositoryIdentityRequest
  cpr_prEntityId :: "string option"

record CreateDraftPatchRequestFromChange =
  pfc_patch :: CreateDraftPatchRequest
  pfc_contents :: "string option"
  pfc_repository :: Repository
  pfc_user :: "GitUser option"

record CreateDraftRequest =
  cdr_type :: string
  cdr_title :: string
  cdr_description :: "string option"
  cdr_visibility :: string

record DraftChangesetCreateRequest =
  ccr_gitUserName :: "string option"
  ccr_gitUserEmail :: "string option"
  ccr_patches :: "CreateDraftPatchRequest list"

record CreateDraftOptions =
  cdo_description :: "string option"
  cdo_visibility :: "string option"
  cdo_prEntityId :: "string option"

record ProviderAuth =
  pa_provider :: string
  pa_token :: string

record DraftPendingUser =
  dpu_userId :: string
  dpu_role :: string

record DraftUser =
  du_id :: string
  du_userId :: string
  du_draftId :: string
  du_role :: string

subsection \<open>Wire payloads\<close>

record SecureData =
  sd_url :: string
  sd_method :: string
  sd_headers :: "(string \<times> string) list"

record CreateDraftResponse =
  cd_id :: string

text \<open>
  A patch on the wire. The answer to a changeset creation carries \<open>secureUploadData\<close>,
  every other patch payload \<open>secureDownloadData\<close>; \<open>createDraft\<close> passes the latter as
  \<open>undefined\<close>, so it is optional here.
\<close>

record DraftPatchResponse =
  dpr_id :: string
  dpr_createdAt :: string
  dpr_updatedAt :: "string option"
  dpr_draftId :: string
  dpr_changesetId :: string
  dpr_userId :: string
  dpr_baseBranchName :: string
  dpr_baseCommitSha :: string
  dpr_gitRepositoryId :: string
  dpr_secureDownloadData :: "SecureData option"

record DraftPatchCreateResponse =
  dpc_id :: string
  dpc_createdAt :: string
  dpc_updatedAt :: "string option"
  dpc_draftId :: string
  dpc_changesetId :: string
  dpc_userId :: string
  dpc_baseBranchName :: string
  dpc_baseCommitSha :: string
  dpc_gitRepositoryId :: string
  dpc_secureUploadData :: SecureData

record DraftChangesetResponse =
  dcr_id :: string
  dcr_createdAt :: string
  dcr_updatedAt :: "string option"
  dcr_draftId :: string
  dcr_parentChangesetId :: "string option"
  dcr_userId :: string
  dcr_gitUserName :: "string option"
  dcr_gitUserEmail :: "string option"
  dcr_deepLink :: "string option"
  dcr_patches :: "DraftPatchResponse list"

record DraftChangesetCreateResponse =
  dcc_id :: string
  dcc_createdAt :: string
  dcc_updatedAt :: "string option"
  dcc_draftId :: string
  dcc_parentChangesetId :: "string option"
  dcc_userId :: string
  dcc_gitUserName :: "string option"
  dcc_gitUserEmail :: "string option"
  dcc_deepLink :: "string option"
  dcc_patches :: "DraftPatchCreateResponse list"

text \<open>
  An optional field of a payload is \<open>None\<close> when the payload omits it (or gives \<open>null\<close>:
  the code tests such fields with \<open>??\<close> and \<open>!= null\<close>, which do not tell the two apart).
\<close>

record DraftResponse =
  dr_type :: string
  dr_id :: string
  dr_createdBy :: string
  dr_organizationId :: "string option"
  dr_role :: string
  dr_isPublished :: bool
  dr_createdAt :: string
  dr_updatedAt :: "string option"
  dr_title :: "string option"
  dr_description :: "string option"
  dr_deepLink :: string
  dr_visibility :: string
  dr_isArchived :: bool
  dr_archivedBy :: "string option"
  dr_archivedReason :: "string option"
  dr_archivedAt :: "string option"
  dr_latestChangesetId :: string

subsection \<open>The exposed model\<close>

record DraftPatch =
  dp_type :: string
  dp_id :: string
  dp_createdAt :: Date
  dp_updatedAt :: Date
  dp_draftId :: string
  dp_changesetId :: string
  dp_userId :: string
  dp_baseBranchName :: string
  dp_baseRef :: string
  dp_gkRepositoryId :: string
  dp_secureLink :: "SecureData option"
  dp_commit :: "GitCommit option"
  dp_contents :: "string option"
  dp_files :: "DraftPatchFileChange list option"
  dp_repository :: "RepositoryOrIdentity option"

record DraftPatchDetails =
  dpd_id :: string
  dpd_contents :: "string option"
  dpd_files :: "DraftPatchFileChange list"
  dpd_repository :: "RepositoryOrIdentity option"

record DraftChangeset =
  dc_id :: string
  dc_createdAt :: Date
  dc_updatedAt :: Date
  dc_draftId :: string
  dc_parentChangesetId :: "string option"
  dc_userId :: string
  dc_gitUserName :: "string option"
  dc_gitUserEmail :: "string option"
  dc_deepLinkUrl :: "string option"
  dc_patches :: "DraftPatch list"

record DraftAuthor =
  da_id :: string
  da_name :: "string option"
  da_email :: "string option"

record Draft =
  d_draftType :: string
  d_type :: string
  d_id :: string
  d_createdAt :: Date
  d_updatedAt :: Date
  d_author :: DraftAuthor
  d_isMine :: bool
  d_organizationId :: "string option"
  d_role :: string
  d_isPublished :: bool
  d_title :: "string option"
  d_description :: "string option"
  d_deepLinkUrl :: string
  d_visibility :: string
  d_isArchived :: bool
  d_archivedBy :: "string option"
  d_archivedReason :: "string option"
  d_archivedAt :: "Date option"
  d_latestChangesetId :: string
  d_changesets :: "DraftChangeset list option"

record SubscriptionAccount =
  sa_id :: string
  sa_name :: string
  sa_email :: "string option"

record FormatDraftOptions =
  fdo_account :: "SubscriptionAccount option"
  fdo_fallbackAuthorName :: "string option"
  fdo_fromPrEntityId :: "bool option"

record FormatPatchOptions =
  fpo_commit :: "GitCommit option"
  fpo_contents :: "string option"
  fpo_files :: "DraftPatchFileChange list option"
  fpo_repository :: "RepositoryOrIdentity option"

subsection \<open>The transport\<close>

text \<open>
  The body of a request is the object handed to \<open>JSON.stringify\<close>; its one header is
  \<open>Provider-Auth\<close>, the encoding of a \<open>ProviderAuth\<close>.
\<close>

datatype RequestBody =
    CreateDraftBody CreateDraftRequest
  | ChangesetBody DraftChangesetCreateRequest
  | PrEntityIdBody string
  | VisibilityBody string
  | UsersBody string "DraftPendingUser list"

record ApiRequest =
  ar_path :: string
  ar_method :: string
  ar_body :: "RequestBody option"
  ar_headers :: "ProviderAuth option"
  ar_query :: "string option"

record RawRequest =
  rr_url :: string
  rr_method :: string
  rr_headers :: "(string \<times> string) list"
  rr_body :: "string option"

text \<open>
  What \<open>rsp.json()\<close> decodes to: the envelope \<open>{data: ...}\<close> of a success, an error
  envelope \<open>{error: "..."}\<close> or \<open>{error: {message?: "..."}}\<close>, or an object with neither
  field. \<open>rsp_json\<close> is \<open>Inl\<close> when the body is not JSON and \<open>json()\<close> rejects.
\<close>

datatype 'a json_body =
    Data 'a
  | ErrorString string
  | ErrorObject "string option"
  | NoData

record 'a Response =
  rsp_ok :: bool
  rsp_status :: nat
  rsp_statusText :: string
  rsp_json :: "jserror + 'a json_body"
  rsp_text :: "jserror + string"

text \<open>
  \<open>ServerConnection\<close>: \<open>fetchGkDevApi\<close>, once for each result type the service casts a
  body to (\<open>as Result\<close>), and the raw \<open>fetch\<close> of an upload or download target.
\<close>

record ServerConnection =
  fetchGkDevApi_CreateDraft :: "ApiRequest \<Rightarrow> jserror + CreateDraftResponse Response"
  fetchGkDevApi_ChangesetCreate :: "ApiRequest \<Rightarrow> jserror + DraftChangesetCreateResponse Response"
  fetchGkDevApi_Draft :: "ApiRequest \<Rightarrow> jserror + DraftResponse Response"
  fetchGkDevApi_Drafts :: "ApiRequest \<Rightarrow> jserror + DraftResponse list Response"
  fetchGkDevApi_Changesets :: "ApiRequest \<Rightarrow> jserror + DraftChangesetResponse list Response"
  fetchGkDevApi_Patch :: "ApiRequest \<Rightarrow> jserror + DraftPatchResponse Response"
  fetchGkDevApi_DraftModel :: "ApiRequest \<Rightarrow> jserror + Draft Response"
  fetchGkDevApi_Users :: "ApiRequest \<Rightarrow> jserror + DraftUser list Response"
  fetchGkDevApi_RepositoryIdentity :: "ApiRequest \<Rightarrow> jserror + RepositoryIdentityResponse Response"
  fetchGkDevApi_Unread :: "ApiRequest \<Rightarrow> jserror + unit Response"
  conn_fetch :: "RawRequest \<Rightarrow> jserror + unit Response"

text \<open>
  The object literal \<open>{ k: v, ...headers }\<close>: each entry of \<open>headers\<close>, in order, replaces the
  value of its key where the key is present and is added at the end where it is not.
\<close>

fun assignHeader :: "string \<times> string \<Rightarrow> (string \<times> string) list \<Rightarrow> (string \<times> string) list" where
  "assignHeader (k, v) [] = [(k, v)]"
| "assignHeader (k, v) ((k', v') # hs) =
     (if k = k' then (k, v) # hs else (k', v') # assignHeader (k, v) hs)"

definition spreadHeaders ::
  "(string \<times> string) list \<Rightarrow> (string \<times> string) list \<Rightarrow> (string \<times> string) list" where
  "spreadHeaders base headers = foldl (\<lambda>acc h. assignHeader h acc) base headers"

subsection \<open>The container and the imported helpers\<close>

record AuthProviderDescriptor =
  apd_domain :: string
  apd_scopes :: "string list"

record Integration =
  int_id :: string
  int_authProviderDescriptor :: AuthProviderDescriptor
  int_authProvider_id :: string

record AuthenticationSession =
  as_accessToken :: string

text \<open>
  The capabilities the two files consume. Their code is not part of the files verified
  here, so each is a function saying how the call settles. The last seven are imported
  helpers and constants: \<open>isSha\<close>, \<open>isUncommitted\<close> and \<open>shortenRevision\<close> of
  git/models/reference, the matcher \<open>getRemoteProviderMatcher(container)\<close> returns, and
  \<open>Uri.parse\<close>, \<open>uri.with\<close> and \<open>Schemes.Virtual\<close> of the editor host. Both \<open>Uri.parse\<close>
  and \<open>uri.with\<close> validate the URI they build and throw when it is malformed, so both
  answer with an error or a URI.
\<close>

record Container =
  git_getBranch :: "string \<Rightarrow> jserror + GitBranch option"
  git_getCommitBranches :: "string \<Rightarrow> string list \<Rightarrow> jserror + string list"
  git_getDiff :: "string \<Rightarrow> string \<Rightarrow> string \<Rightarrow> jserror + GitDiff option"
  git_getFirstCommitSha :: "string \<Rightarrow> jserror + string option"
  git_getBestRemoteWithProvider :: "string \<Rightarrow> jserror + GitRemote option"
  git_getCurrentUser :: "string \<Rightarrow> jserror + GitUser option"
  git_getCommit :: "string \<Rightarrow> string \<Rightarrow> jserror + GitCommit option"
  git_getDiffFiles :: "string \<Rightarrow> string option \<Rightarrow> jserror + GitDiffFiles option"
  git_getOrOpenRepository :: "Uri \<Rightarrow> jserror + Repository option"
  repositoryIdentity_getRepository ::
    "RepositoryIdentityDescriptor \<Rightarrow> GetRepositoryOptions option \<Rightarrow> jserror + Repository option"
  subscription_getSubscription :: "jserror + SubscriptionAccount option"
  repository_getBestRemoteWithIntegration :: "Repository \<Rightarrow> jserror + GitRemote option"
  remote_getIntegration :: "GitRemote \<Rightarrow> jserror + Integration option"
  integrationAuthentication_getSession ::
    "string \<Rightarrow> AuthProviderDescriptor \<Rightarrow> jserror + AuthenticationSession option"
  isSha :: "string \<Rightarrow> bool"
  isUncommitted :: "string \<Rightarrow> bool"
  shortenRevision :: "string \<Rightarrow> string"
  remoteProviderMatcher :: "string \<Rightarrow> string \<Rightarrow> string \<Rightarrow> RemoteProvider option"
  Uri_parse :: "string \<Rightarrow> jserror + Uri"
  Uri_with :: "Uri \<Rightarrow> UriChange \<Rightarrow> jserror + Uri"
  Schemes_Virtual :: string

subsection \<open>The calls a trace records\<close>

text \<open>
  \<open>FetchGkDevApi\<close> and \<open>Fetch\<close>: a request through the connection, to the service and to
  a storage target. \<open>ParseSuccessBody\<close>: an operation reads \<open>rsp.json()\<close> for its result;
  \<open>ParseErrorBody\<close>: \<open>handleBadDraftResponse\<close> reads it for the error message.
  \<open>ResolveChange\<close>: \<open>getCreateDraftPatchRequestFromChange\<close> is run on a change (its git
  queries are local reads and are not recorded one by one). \<open>GetRepository\<close> and
  \<open>GetOrOpenRepository\<close>: a lookup in the repository registry, and the opening of a
  repository by URI.
\<close>

datatype event =
    FetchGkDevApi ApiRequest
  | Fetch RawRequest
  | ParseSuccessBody
  | ParseErrorBody
  | ResolveChange CreateDraftChange
  | GetRepository RepositoryIdentityDescriptor "GetRepositoryOptions option"
  | GetOrOpenRepository Uri

type_synonym 'a io = "event list \<times> (jserror + 'a)"

section \<open>git/models/issue.ts: resolving the repository of an issue\<close>

text \<open>A flag that is \<open>undefined\<close>, absent or \<open>false\<close> is falsy.\<close>

fun truthy_flag :: "bool option \<Rightarrow> bool" where
  "truthy_flag (Some b) = b"
| "truthy_flag None = False"

record IssueRepositoryOptions =
  iro_promptIfNeeded :: "bool option"
  iro_skipVirtual :: "bool option"

definition getRepositoryIdentityForIssue ::
  "('p, 'm) IssueShape_scheme \<Rightarrow> jserror + RepositoryIdentityDescriptor" where
  "getRepositoryIdentityForIssue v =
     (case is_repository v of
        None \<Rightarrow> Inl (Error ''Missing repository'')
      | Some repository \<Rightarrow>
          Inr \<lparr> rid_name = Some (ir_owner repository @ ''/'' @ ir_repo repository),
                rid_initialCommitSha = None,
                rid_remote =
                  Some \<lparr> rd_url = ir_url repository,
                         rd_domain = Some (pr_domain (iop_provider v)),
                         rd_path = None \<rparr>,
                rid_provider =
                  Some \<lparr> pd_id = Some (pr_id (iop_provider v)),
                         pd_domain = Some (pr_domain (iop_provider v)),
                         pd_repoDomain = Some (ir_owner repository),
                         pd_repoName = Some (ir_repo repository),
                         pd_repoOwnerDomain = Some (ir_owner repository) \<rparr> \<rparr>)"

definition getVirtualUriForIssue ::
  "Container \<Rightarrow> ('p, 'm) IssueShape_scheme \<Rightarrow> jserror + Uri option" where
  "getVirtualUriForIssue ct v =
     (case is_repository v of
        None \<Rightarrow> Inl (Error ''Missing repository'')
      | Some repository \<Rightarrow>
          if pr_id (iop_provider v) \<noteq> ''github'' then Inr None
          else
            (case Uri_parse ct (case ir_url repository of Some u \<Rightarrow> u | None \<Rightarrow> iop_url v) of
               Inl e \<Rightarrow> Inl e
             | Inr uri \<Rightarrow>
                 (case Uri_with ct uri
                         \<lparr> uc_scheme = Some (Schemes_Virtual ct),
                           uc_authority = Some ''github'',
                           uc_path = Some (uri_path uri),
                           uc_query = None, uc_fragment = None \<rparr> of
                    Inl e \<Rightarrow> Inl e
                  | Inr virtualUri \<Rightarrow> Inr (Some virtualUri))))"

definition getOrOpenIssueRepository ::
  "Container \<Rightarrow> ('p, 'm) IssueShape_scheme \<Rightarrow> IssueRepositoryOptions option \<Rightarrow> Repository option io" where
  "getOrOpenIssueRepository ct v options =
     io_bind (io_await (getRepositoryIdentityForIssue v)) (\<lambda>identity.
     let direct = Some \<lparr> gro_openIfNeeded = Some True, gro_keepOpen = Some False,
                         gro_prompt = Some False, gro_skipRefValidation = None \<rparr> in
     io_bind (io_call (GetRepository identity direct)
                (repositoryIdentity_getRepository ct identity direct)) (\<lambda>repo.
     io_bind
       (if repo = None \<and> \<not> truthy_flag (case options of None \<Rightarrow> None | Some opts \<Rightarrow> iro_skipVirtual opts)
        then
          io_bind (io_await (getVirtualUriForIssue ct v)) (\<lambda>virtualUri.
            case virtualUri of
              None \<Rightarrow> io_return repo
            | Some u \<Rightarrow> io_call (GetOrOpenRepository u) (git_getOrOpenRepository ct u))
        else io_return repo) (\<lambda>repo.
     io_bind
       (if repo = None \<and> truthy_flag (case options of None \<Rightarrow> None | Some opts \<Rightarrow> iro_promptIfNeeded opts)
        then
          (let prompting = Some \<lparr> gro_openIfNeeded = Some True, gro_keepOpen = Some False,
                                  gro_prompt = Some True, gro_skipRefValidation = None \<rparr> in
           io_call (GetRepository identity prompting)
             (repositoryIdentity_getRepository ct identity prompting))
        else io_return repo) (\<lambda>repo.
     io_return repo))))"

section \<open>plus/drafts/draftsService.ts: the normalizers\<close>

definition formatDraft :: "DraftResponse \<Rightarrow> FormatDraftOptions option \<Rightarrow> Draft" where
  "formatDraft draftResponse options =
     (let account = (case options of None \<Rightarrow> None | Some opts \<Rightarrow> fdo_account opts);
          author0 =
            \<lparr> da_id = dr_createdBy draftResponse,
              da_name = (case options of None \<Rightarrow> None | Some opts \<Rightarrow> fdo_fallbackAuthorName opts),
              da_email = None \<rparr>;
          isMine = (case account of None \<Rightarrow> False | Some a \<Rightarrow> dr_createdBy draftResponse = sa_id a);
          author =
            (case account of
               None \<Rightarrow> author0
             | Some a \<Rightarrow>
                 if dr_createdBy draftResponse = sa_id a
                 then author0\<lparr> da_name := Some (sa_name a @ '' (you)''), da_email := sa_email a \<rparr>
                 else author0);
          role =
            (if dr_role draftResponse = ''''
             then (if (case options of None \<Rightarrow> None | Some opts \<Rightarrow> fdo_fromPrEntityId opts) = Some True
                   then ''editor'' else ''viewer'')
             else dr_role draftResponse)
      in \<lparr> d_draftType = ''cloud'',
           d_type = dr_type draftResponse,
           d_id = dr_id draftResponse,
           d_createdAt = NewDate (dr_createdAt draftResponse),
           d_updatedAt =
             NewDate (case dr_updatedAt draftResponse of
                        Some u \<Rightarrow> u
                      | None \<Rightarrow> dr_createdAt draftResponse),
           d_author = author,
           d_isMine = isMine,
           d_organizationId =
             (case dr_organizationId draftResponse of
                None \<Rightarrow> None
              | Some org \<Rightarrow> if org = '''' then None else Some org),
           d_role = role,
           d_isPublished = dr_isPublished draftResponse,
           d_title = dr_title draftResponse,
           d_description = dr_description draftResponse,
           d_deepLinkUrl = dr_deepLink draftResponse,
           d_visibility = dr_visibility draftResponse,
           d_isArchived = dr_isArchived draftResponse,
           d_archivedBy = dr_archivedBy draftResponse,
           d_archivedReason = dr_archivedReason draftResponse,
           d_archivedAt =
             (case dr_archivedAt draftResponse of
                Some a \<Rightarrow> Some (NewDate a)
              | None \<Rightarrow> None),
           d_latestChangesetId = dr_latestChangesetId draftResponse,
           d_changesets = None \<rparr>)"

definition formatPatch :: "DraftPatchResponse \<Rightarrow> FormatPatchOptions option \<Rightarrow> DraftPatch" where
  "formatPatch patchResponse options =
     \<lparr> dp_type = ''cloud'',
       dp_id = dpr_id patchResponse,
       dp_createdAt = NewDate (dpr_createdAt patchResponse),
       dp_updatedAt =
         NewDate (case dpr_updatedAt patchResponse of
                    Some u \<Rightarrow> u
                  | None \<Rightarrow> dpr_createdAt patchResponse),
       dp_draftId = dpr_draftId patchResponse,
       dp_changesetId = dpr_changesetId patchResponse,
       dp_userId = dpr_userId patchResponse,
       dp_baseBranchName = dpr_baseBranchName patchResponse,
       dp_baseRef = dpr_baseCommitSha patchResponse,
       dp_gkRepositoryId = dpr_gitRepositoryId patchResponse,
       dp_secureLink = dpr_secureDownloadData patchResponse,
       dp_commit = (case options of None \<Rightarrow> None | Some opts \<Rightarrow> fpo_commit opts),
       dp_contents = (case options of None \<Rightarrow> None | Some opts \<Rightarrow> fpo_contents opts),
       dp_files = (case options of None \<Rightarrow> None | Some opts \<Rightarrow> fpo_files opts),
       dp_repository = (case options of None \<Rightarrow> None | Some opts \<Rightarrow> fpo_repository opts) \<rparr>"

definition formatChangeset :: "DraftChangesetResponse \<Rightarrow> DraftChangeset" where
  "formatChangeset changesetResponse =
     \<lparr> dc_id = dcr_id changesetResponse,
       dc_createdAt = NewDate (dcr_createdAt changesetResponse),
       dc_updatedAt =
         NewDate (case dcr_updatedAt changesetResponse of
                    Some u \<Rightarrow> u
                  | None \<Rightarrow> dcr_createdAt changesetResponse),
       dc_draftId = dcr_draftId changesetResponse,
       dc_parentChangesetId = dcr_parentChangesetId changesetResponse,
       dc_userId = dcr_userId changesetResponse,
       dc_gitUserName = dcr_gitUserName changesetResponse,
       dc_gitUserEmail = dcr_gitUserEmail changesetResponse,
       dc_deepLinkUrl = dcr_deepLink changesetResponse,
       dc_patches = map (\<lambda>patch. formatPatch patch None) (dcr_patches changesetResponse) \<rparr>"

section \<open>plus/drafts/draftsService.ts: failed responses\<close>

text \<open>The decimal digits of a status code, as a template literal prints a number.\<close>

fun string_of_nat :: "nat \<Rightarrow> string" where
  "string_of_nat n =
     (if n < 10 then [''0123456789'' ! n]
      else string_of_nat (n div 10) @ [''0123456789'' ! (n mod 10)])"

text \<open>
  \<open>handleBadDraftResponse\<close> reads the body for the server's error message (a failure to
  decode it is swallowed) and always throws.
\<close>

definition handleBadDraftResponse :: "string \<Rightarrow> 'a Response \<Rightarrow> 'b io" where
  "handleBadDraftResponse message rsp =
     io_bind (io_settled (io_call ParseErrorBody (rsp_json rsp))) (\<lambda>json.
       let rspErrorMessage =
             (case json of
                Inr (ErrorString s) \<Rightarrow> s
              | Inr (ErrorObject (Some m)) \<Rightarrow> m
              | _ \<Rightarrow> rsp_statusText rsp);
           errorMessage = message @ '': ('' @ string_of_nat (rsp_status rsp) @ '') '' @ rspErrorMessage
       in io_throw (Error errorMessage))"

text \<open>
  \<open>((await rsp.json()) as Result).data\<close>: \<open>undefined\<close> when the decoded object has no
  \<open>data\<close> field.
\<close>

definition json_data :: "'a Response \<Rightarrow> 'a option io" where
  "json_data rsp =
     io_bind (io_call ParseSuccessBody (rsp_json rsp)) (\<lambda>json.
       io_return (case json of Data d \<Rightarrow> Some d | _ \<Rightarrow> None))"

section \<open>plus/drafts/draftsService.ts: single-call mutations\<close>

definition deleteDraft :: "ServerConnection \<Rightarrow> string \<Rightarrow> unit io" where
  "deleteDraft conn ident =
     (let req = \<lparr> ar_path = ''v1/drafts/'' @ ident, ar_method = ''DELETE'', ar_body = None,
                   ar_headers = None, ar_query = None \<rparr> in
      io_bind (io_call (FetchGkDevApi req) (fetchGkDevApi_Unread conn req)) (\<lambda>rsp.
        io_return ()))"

definition updateDraftVisibility :: "ServerConnection \<Rightarrow> string \<Rightarrow> string \<Rightarrow> Draft option io" where
  "updateDraftVisibility conn ident visibility =
     (let req = \<lparr> ar_path = ''/v1/drafts/'' @ ident, ar_method = ''PATCH'',
                   ar_body = Some (VisibilityBody visibility), ar_headers = None, ar_query = None \<rparr> in
      io_bind (io_call (FetchGkDevApi req) (fetchGkDevApi_DraftModel conn req)) (\<lambda>rsp.
      io_bind (if rsp_ok rsp = False
               then handleBadDraftResponse (''Unable to update draft '' @ [CHR 0x27] @ ident @ [CHR 0x27]) rsp
               else io_return ()) (\<lambda>_.
      io_bind (json_data rsp) (\<lambda>draft.
        io_return draft))))"

definition addDraftUsers ::
  "ServerConnection \<Rightarrow> string \<Rightarrow> DraftPendingUser list \<Rightarrow> DraftUser list option io" where
  "addDraftUsers conn ident pendingUsers =
     (if length pendingUsers = 0 then io_throw (Error ''No changes found'')
      else
        (let req = \<lparr> ar_path = ''/v1/drafts/'' @ ident @ ''/users'', ar_method = ''POST'',
                     ar_body = Some (UsersBody ident pendingUsers), ar_headers = None,
                     ar_query = None \<rparr> in
         io_bind (io_call (FetchGkDevApi req) (fetchGkDevApi_Users conn req)) (\<lambda>rsp.
         io_bind (if rsp_ok rsp = False
                  then handleBadDraftResponse
                         (''Unable to add users for draft '' @ [CHR 0x27] @ ident @ [CHR 0x27]) rsp
                  else io_return ()) (\<lambda>_.
         io_bind (json_data rsp) (\<lambda>users.
           io_return users)))))"

definition removeDraftUser :: "ServerConnection \<Rightarrow> string \<Rightarrow> string \<Rightarrow> bool io" where
  "removeDraftUser conn ident userId =
     (let req = \<lparr> ar_path = ''/v1/drafts/'' @ ident @ ''/users/'' @ userId, ar_method = ''DELETE'',
                   ar_body = None, ar_headers = None, ar_query = None \<rparr> in
      io_bind (io_call (FetchGkDevApi req) (fetchGkDevApi_Unread conn req)) (\<lambda>rsp.
      io_bind (if rsp_ok rsp = False
               then handleBadDraftResponse
                      (''Unable to update user '' @ userId @ '' for draft '' @ [CHR 0x27] @ ident @ [CHR 0x27]) rsp
               else io_return ()) (\<lambda>_.
        io_return True)))"

section \<open>plus/drafts/draftsService.ts: repository identities\<close>

text \<open>\<open>x ? ... : ...\<close> on an optional string: \<open>undefined\<close> and the empty string are falsy.\<close>

fun truthy_string :: "string option \<Rightarrow> bool" where
  "truthy_string (Some s) = (s \<noteq> '''')"
| "truthy_string None = False"

definition getRepositoryIdentity ::
  "ServerConnection \<Rightarrow> Container \<Rightarrow> string \<Rightarrow> string \<Rightarrow> RepositoryIdentity io" where
  "getRepositoryIdentity conn ct draftId repoId =
     (let req = \<lparr> ar_path = ''/v1/drafts/'' @ draftId @ ''/git-repositories/'' @ repoId,
                   ar_method = ''GET'', ar_body = None, ar_headers = None, ar_query = None \<rparr> in
      io_bind (io_call (FetchGkDevApi req) (fetchGkDevApi_RepositoryIdentity conn req)) (\<lambda>rsp.
      io_bind (json_data rsp) (\<lambda>payload.
        case payload of
          None \<Rightarrow> io_throw (TypeError ''Cannot use 'in' operator to search for 'name' in undefined'')
        | Some data \<Rightarrow>
            (let remote_field = (\<lambda>f. case rir_remote data of None \<Rightarrow> None | Some r \<Rightarrow> f r);
                 name =
                   (case rir_name data of
                      Some n \<Rightarrow> n
                    | None \<Rightarrow>
                       (case (case rir_provider data of None \<Rightarrow> None | Some p \<Rightarrow> pd_repoName p) of
                          Some repoName \<Rightarrow> repoName
                        | None \<Rightarrow>
                           (case (remote_field rd_url, remote_field rd_domain, remote_field rd_path) of
                              (Some url, Some domain, Some path) \<Rightarrow>
                                (case (case remoteProviderMatcher ct url domain path of
                                         None \<Rightarrow> None
                                       | Some provider \<Rightarrow> rp_repoName provider) of
                                   Some repoName \<Rightarrow> repoName
                                 | None \<Rightarrow> path)
                            | _ \<Rightarrow>
                                (case remote_field rd_path of
                                   Some path \<Rightarrow> path
                                 | None \<Rightarrow>
                                     ''Unknown '' @
                                     (case rir_initialCommitSha data of
                                        None \<Rightarrow> ''''
                                      | Some sha \<Rightarrow>
                                          if sha = '''' then ''''
                                          else '' ('' @ shortenRevision ct sha @ '')'')))))
             in io_return
                  \<lparr> rid_name = Some name,
                    rid_initialCommitSha = rir_initialCommitSha data,
                    rid_remote = rir_remote data,
                    rid_provider = rir_provider data,
                    ri_id = rir_id data,
                    ri_createdAt = NewDate (rir_createdAt data),
                    ri_updatedAt = NewDate (rir_updatedAt data) \<rparr>))))"

definition getRepositoryOrIdentity ::
  "ServerConnection \<Rightarrow> Container \<Rightarrow> string \<Rightarrow> string \<Rightarrow> GetRepositoryOptions option
     \<Rightarrow> RepositoryOrIdentity io" where
  "getRepositoryOrIdentity conn ct draftId repoId options =
     io_bind (getRepositoryIdentity conn ct draftId repoId) (\<lambda>identity.
     io_bind (io_call (GetRepository (RepositoryIdentityDescriptor.truncate identity) options)
                (repositoryIdentity_getRepository ct
                   (RepositoryIdentityDescriptor.truncate identity) options)) (\<lambda>repo.
       io_return (case repo of Some r \<Rightarrow> IsRepository r | None \<Rightarrow> IsIdentity identity)))"

section \<open>plus/drafts/draftsService.ts: reading changesets and patches\<close>

definition getChangesets :: "ServerConnection \<Rightarrow> string \<Rightarrow> DraftChangeset list io" where
  "getChangesets conn ident =
     (let req = \<lparr> ar_path = ''/v1/drafts/'' @ ident @ ''/changesets'', ar_method = ''GET'',
                   ar_body = None, ar_headers = None, ar_query = None \<rparr> in
      io_bind (io_call (FetchGkDevApi req) (fetchGkDevApi_Changesets conn req)) (\<lambda>rsp.
      io_bind (if \<not> rsp_ok rsp
               then handleBadDraftResponse
                      (''Unable to open changesets for draft '' @ [CHR 0x27] @ ident @ [CHR 0x27]) rsp
               else io_return ()) (\<lambda>_.
      io_bind (json_data rsp) (\<lambda>changeset.
        case changeset of
          None \<Rightarrow> io_throw (TypeError ''changeset is not iterable'')
        | Some cs \<Rightarrow> io_return (map formatChangeset cs)))))"

definition getPatchCore :: "ServerConnection \<Rightarrow> string \<Rightarrow> DraftPatch io" where
  "getPatchCore conn ident =
     (let req = \<lparr> ar_path = ''/v1/patches/'' @ ident, ar_method = ''GET'', ar_body = None,
                   ar_headers = None, ar_query = None \<rparr> in
      io_bind (io_call (FetchGkDevApi req) (fetchGkDevApi_Patch conn req)) (\<lambda>rsp.
      io_bind (if \<not> rsp_ok rsp
               then handleBadDraftResponse (''Unable to open patch '' @ [CHR 0x27] @ ident @ [CHR 0x27]) rsp
               else io_return ()) (\<lambda>_.
      io_bind (json_data rsp) (\<lambda>payload.
        case payload of
          None \<Rightarrow> io_throw (TypeError ''Cannot read properties of undefined (reading 'id')'')
        | Some data \<Rightarrow> io_return (formatPatch data None)))))"

definition getPatchContentsCore :: "ServerConnection \<Rightarrow> SecureData option \<Rightarrow> string option io" where
  "getPatchContentsCore conn secureLink =
     (case secureLink of
        None \<Rightarrow> io_throw (TypeError ''Cannot destructure property 'url' of 'secureLink' as it is undefined.'')
      | Some link \<Rightarrow>
          (let req = \<lparr> rr_url = sd_url link, rr_method = sd_method link,
                       rr_headers = spreadHeaders [(''Accept'', ''text/plain'')] (sd_headers link),
                       rr_body = None \<rparr> in
           io_bind (io_call (Fetch req) (conn_fetch conn req)) (\<lambda>contentsRsp.
           io_bind (io_await (rsp_text contentsRsp)) (\<lambda>text.
             io_return (Some text)))))"

text \<open>
  \<open>getPatchDetails\<close> takes a patch id (\<open>Inl\<close>) or a patch (\<open>Inr\<close>). The download and the
  resolution of the repository are both left to settle; \<open>getSettledValue\<close> then reads
  each, a rejected one as \<open>undefined\<close>.
\<close>

definition getPatchDetails ::
  "ServerConnection \<Rightarrow> Container \<Rightarrow> string + DraftPatch \<Rightarrow> DraftPatchDetails io" where
  "getPatchDetails conn ct idOrPatch =
     io_bind (case idOrPatch of Inl ident \<Rightarrow> getPatchCore conn ident | Inr p \<Rightarrow> io_return p) (\<lambda>patch.
     io_bind (io_settled (getPatchContentsCore conn (dp_secureLink patch))) (\<lambda>contentsResult.
     io_bind (io_settled
                (getRepositoryOrIdentity conn ct (dp_draftId patch) (dp_gkRepositoryId patch)
                   (Some \<lparr> gro_openIfNeeded = Some True, gro_keepOpen = None, gro_prompt = None,
                           gro_skipRefValidation = Some True \<rparr>))) (\<lambda>repositoryResult.
     let contents = getSettledValue contentsResult;
         repositoryOrIdentity = getSettledValue (map_sum id Some repositoryResult);
         repoPath = (case repositoryOrIdentity of Some (IsRepository r) \<Rightarrow> repo_path r | _ \<Rightarrow> '''')
     in
     io_bind (io_await (git_getDiffFiles ct repoPath contents)) (\<lambda>diffFiles.
     let files =
           (case diffFiles of
              None \<Rightarrow> []
            | Some df \<Rightarrow>
                map (\<lambda>f. \<lparr> gf_path = gf_path f, gf_status = gf_status f,
                           dfc_gkRepositoryId = dp_gkRepositoryId patch \<rparr>) (gdf_files df))
     in
     io_return \<lparr> dpd_id = dp_id patch, dpd_contents = contents, dpd_files = files,
                 dpd_repository = repositoryOrIdentity \<rparr>))))"

definition getPatch :: "ServerConnection \<Rightarrow> Container \<Rightarrow> string \<Rightarrow> DraftPatch io" where
  "getPatch conn ct ident =
     io_bind (getPatchCore conn ident) (\<lambda>patch.
     io_bind (getPatchDetails conn ct (Inr patch)) (\<lambda>details.
       io_return (patch\<lparr> dp_contents := dpd_contents details,
                         dp_files := Some (dpd_files details),
                         dp_repository := dpd_repository details \<rparr>)))"

section \<open>plus/drafts/draftsService.ts: provider auth\<close>

definition getProviderAuthFromRepository :: "Container \<Rightarrow> Repository \<Rightarrow> ProviderAuth option io" where
  "getProviderAuthFromRepository ct repository =
     io_bind (io_await (repository_getBestRemoteWithIntegration ct repository)) (\<lambda>remoteProvider.
       case remoteProvider of
         None \<Rightarrow> io_return None
       | Some remote \<Rightarrow>
           io_bind (io_await (remote_getIntegration ct remote)) (\<lambda>integration.
             case integration of
               None \<Rightarrow> io_return None
             | Some i \<Rightarrow>
                 io_bind (io_await (integrationAuthentication_getSession ct (int_id i)
                                      (int_authProviderDescriptor i))) (\<lambda>session.
                   case session of
                     None \<Rightarrow> io_return None
                   | Some sess \<Rightarrow>
                       io_return (Some \<lparr> pa_provider = int_authProvider_id i,
                                          pa_token = as_accessToken sess \<rparr>))))"

section \<open>plus/drafts/draftsService.ts: creating a draft\<close>

text \<open>
  \<open>getCreateDraftPatchRequestFromChange\<close>: the five git queries are left to settle and
  read with \<open>getSettledValue\<close>; only the lookup of the base commit is awaited, so its
  rejection rejects the whole.
\<close>

definition getCreateDraftPatchRequestFromChange ::
  "Container \<Rightarrow> CreateDraftChange \<Rightarrow> jserror + CreateDraftPatchRequestFromChange" where
  "getCreateDraftPatchRequestFromChange ct change =
     (let isWIP = isUncommitted ct (rev_to (chg_revision change));
          branchNamesResult =
            (if isWIP
             then map_sum id (\<lambda>b. case b of None \<Rightarrow> None | Some br \<Rightarrow> Some [gb_name br])
                    (git_getBranch ct (repo_uri (chg_repository change)))
             else map_sum id Some
                    (git_getCommitBranches ct (repo_uri (chg_repository change))
                       [rev_to (chg_revision change), rev_from (chg_revision change)]));
          diffResult =
            (if chg_contents change = None
             then git_getDiff ct (repo_path (chg_repository change))
                    (rev_to (chg_revision change)) (rev_from (chg_revision change))
             else Inr None);
          firstShaResult = git_getFirstCommitSha ct (repo_uri (chg_repository change));
          remoteResult = git_getBestRemoteWithProvider ct (repo_uri (chg_repository change));
          userResult = git_getCurrentUser ct (repo_uri (chg_repository change));
          firstSha = getSettledValue firstShaResult;
          remote = getSettledValue remoteResult
      in
      case (case remote of
              None \<Rightarrow>
                (case firstSha of
                   None \<Rightarrow> Inl (Error ''No remote or initial commit found'')
                 | Some sha \<Rightarrow>
                     Inr \<lparr> rq_initialCommitSha = Some sha, rq_remote = None, rq_provider = None \<rparr>)
            | Some r \<Rightarrow>
                Inr \<lparr> rq_initialCommitSha = firstSha,
                      rq_remote =
                        Some \<lparr> rd_url = Some (gr_url r), rd_domain = Some (gr_domain r),
                               rd_path = Some (gr_path r) \<rparr>,
                      rq_provider =
                        (if rp_gkProviderId (gr_provider r) \<noteq> None \<and>
                            rp_owner (gr_provider r) \<noteq> None \<and>
                            rp_repoName (gr_provider r) \<noteq> None
                         then Some \<lparr> pd_id = rp_gkProviderId (gr_provider r),
                                     pd_domain = None,
                                     pd_repoDomain = rp_owner (gr_provider r),
                                     pd_repoName = rp_repoName (gr_provider r),
                                     pd_repoOwnerDomain = None \<rparr>
                         else None) \<rparr>) of
        Inl e \<Rightarrow> Inl e
      | Inr repoData \<Rightarrow>
          (let diff = getSettledValue diffResult;
               contents =
                 (case chg_contents change of
                    Some c \<Rightarrow> Some c
                  | None \<Rightarrow> (case diff of None \<Rightarrow> None | Some d \<Rightarrow> Some (gd_contents d)))
           in
           case contents of
             None \<Rightarrow>
               Inl (Error (''Unable to diff '' @ rev_from (chg_revision change) @ '' and '' @
                           rev_to (chg_revision change)))
           | Some cts \<Rightarrow>
               (let user = getSettledValue userResult;
                    branchNames = getSettledValue branchNamesResult;
                    branchName =
                      (case branchNames of
                         Some (b # _) \<Rightarrow> b
                       | _ \<Rightarrow> ''HEAD'')
                in
                case (if \<not> isSha ct (rev_from (chg_revision change))
                      then
                        (case git_getCommit ct (repo_uri (chg_repository change))
                                (rev_from (chg_revision change)) of
                           Inl e \<Rightarrow> Inl e
                         | Inr (Some commit) \<Rightarrow> Inr (gc_sha commit)
                         | Inr None \<Rightarrow> Inr (rev_from (chg_revision change)))
                      else Inr (rev_from (chg_revision change))) of
                  Inl e \<Rightarrow> Inl e
                | Inr baseSha \<Rightarrow>
                    Inr \<lparr> pfc_patch =
                            \<lparr> cpr_baseCommitSha = baseSha,
                              cpr_baseBranchName = branchName,
                              cpr_gitRepoData = repoData,
                              cpr_prEntityId = chg_prEntityId change \<rparr>,
                          pfc_contents = Some cts,
                          pfc_repository = chg_repository change,
                          pfc_user = user \<rparr>)))"

text \<open>
  The loop over the settled results (lines 81 to 93 of the source): a fulfilled result
  with truthy contents is pushed to \<open>patchRequests\<close> and gives \<open>user\<close> its value while
  that is unset, one with empty contents is skipped, a rejected one has its reason pushed
  to \<open>failed\<close>.
\<close>

fun collectResults ::
  "(jserror + CreateDraftPatchRequestFromChange) list
     \<Rightarrow> CreateDraftPatchRequestFromChange list \<times> jserror list \<times> GitUser option
     \<Rightarrow> CreateDraftPatchRequestFromChange list \<times> jserror list \<times> GitUser option" where
  "collectResults [] acc = acc"
| "collectResults (Inr v # rs) (patchRequests, failed, user) =
     (if truthy_string (pfc_contents v)
      then collectResults rs
             (patchRequests @ [v], failed, (if user = None then pfc_user v else user))
      else collectResults rs (patchRequests, failed, user))"
| "collectResults (Inl reason # rs) (patchRequests, failed, user) =
     collectResults rs (patchRequests, failed @ [reason], user)"

text \<open>\<open>{...patch, secureDownloadData: undefined}\<close> and \<open>{...createChangeset, patches: []}\<close>.\<close>

definition patchWithoutDownloadData :: "DraftPatchCreateResponse \<Rightarrow> DraftPatchResponse" where
  "patchWithoutDownloadData patch =
     \<lparr> dpr_id = dpc_id patch,
       dpr_createdAt = dpc_createdAt patch,
       dpr_updatedAt = dpc_updatedAt patch,
       dpr_draftId = dpc_draftId patch,
       dpr_changesetId = dpc_changesetId patch,
       dpr_userId = dpc_userId patch,
       dpr_baseBranchName = dpc_baseBranchName patch,
       dpr_baseCommitSha = dpc_baseCommitSha patch,
       dpr_gitRepositoryId = dpc_gitRepositoryId patch,
       dpr_secureDownloadData = None \<rparr>"

definition changesetWithoutPatches :: "DraftChangesetCreateResponse \<Rightarrow> DraftChangesetResponse" where
  "changesetWithoutPatches createChangeset =
     \<lparr> dcr_id = dcc_id createChangeset,
       dcr_createdAt = dcc_createdAt createChangeset,
       dcr_updatedAt = dcc_updatedAt createChangeset,
       dcr_draftId = dcc_draftId createChangeset,
       dcr_parentChangesetId = dcc_parentChangesetId createChangeset,
       dcr_userId = dcc_userId createChangeset,
       dcr_gitUserName = dcc_gitUserName createChangeset,
       dcr_gitUserEmail = dcc_gitUserEmail createChangeset,
       dcr_deepLink = dcc_deepLink createChangeset,
       dcr_patches = [] \<rparr>"

text \<open>
  The loop over \<open>createChangeset.patches\<close> (lines 167 to 202): the \<open>i\<close>-th patch of the
  answer is paired with \<open>patchRequests[i]\<close>; reading past the end of \<open>patchRequests\<close>
  gives \<open>undefined\<close>, whose destructuring throws.
\<close>

fun uploadPatches ::
  "ServerConnection \<Rightarrow> Container \<Rightarrow> DraftPatchCreateResponse list
     \<Rightarrow> CreateDraftPatchRequestFromChange list \<Rightarrow> nat \<Rightarrow> DraftPatch list \<Rightarrow> DraftPatch list io" where
  "uploadPatches conn ct [] patchRequests i patches = io_return patches"
| "uploadPatches conn ct (patch # rest) patchRequests i patches =
     (if i < length patchRequests
      then
        (case pfc_contents (patchRequests ! i) of
           None \<Rightarrow> io_throw (Error (''No contents found for '' @ dpc_baseCommitSha patch))
         | Some contents \<Rightarrow>
             io_bind (io_await (git_getDiffFiles ct (repo_path (pfc_repository (patchRequests ! i)))
                                  (Some contents))) (\<lambda>diffFiles.
             let files =
                   (case diffFiles of
                      None \<Rightarrow> []
                    | Some df \<Rightarrow>
                        map (\<lambda>f. \<lparr> gf_path = gf_path f, gf_status = gf_status f,
                                   dfc_gkRepositoryId = dpc_gitRepositoryId patch \<rparr>) (gdf_files df));
                 req = \<lparr> rr_url = sd_url (dpc_secureUploadData patch),
                         rr_method = sd_method (dpc_secureUploadData patch),
                         rr_headers =
                           spreadHeaders [(''Content-Type'', ''text/plain'')]
                             (sd_headers (dpc_secureUploadData patch)),
                         rr_body = Some contents \<rparr>
             in
             io_bind (io_call (Fetch req) (conn_fetch conn req)) (\<lambda>_.
             let newPatch =
                   formatPatch (patchWithoutDownloadData patch)
                     (Some \<lparr> fpo_commit = None,
                             fpo_contents = Some contents,
                             fpo_files = Some files,
                             fpo_repository = Some (IsRepository (pfc_repository (patchRequests ! i))) \<rparr>)
             in uploadPatches conn ct rest patchRequests (Suc i) (patches @ [newPatch]))))
      else io_throw (TypeError ''Cannot destructure property 'contents' of 'patchRequests[i++]' as it is undefined.''))"

definition createDraft ::
  "ServerConnection \<Rightarrow> Container \<Rightarrow> string \<Rightarrow> string \<Rightarrow> CreateDraftChange list
     \<Rightarrow> CreateDraftOptions option \<Rightarrow> Draft io" where
  "createDraft conn ct draftType title changes options =
     io_bind (io_allSettled
                (map (\<lambda>c. io_call (ResolveChange c) (getCreateDraftPatchRequestFromChange ct c))
                   changes)) (\<lambda>results.
     if length results = 0 then io_throw (Error ''No changes found'')
     else
       (case collectResults results ([], [], None) of
          (patchRequests, failed, user) \<Rightarrow>
     if length failed \<noteq> 0 then io_throw (AggregateError failed ''Unable to create draft'')
     else
     io_bind
       (if draftType = ''suggested_pr_change''
        then
          (case (case options of None \<Rightarrow> None | Some opts \<Rightarrow> cdo_prEntityId opts) of
             None \<Rightarrow> io_throw (Error ''No pull request info provided'')
           | Some prEntityId \<Rightarrow>
               (case patchRequests of
                  [] \<Rightarrow> io_throw (TypeError ''Cannot read properties of undefined (reading 'repository')'')
                | first # _ \<Rightarrow>
                    io_bind (getProviderAuthFromRepository ct (pfc_repository first)) (\<lambda>providerAuth.
                      case providerAuth of
                        None \<Rightarrow> io_throw (Error ''No provider integration found'')
                      | Some auth \<Rightarrow> io_return (Some auth, Some prEntityId))))
        else io_return (None, None)) (\<lambda>(providerAuthHeader, prEntityIdBody).
     let createReq =
           \<lparr> ar_path = ''v1/drafts'', ar_method = ''POST'',
             ar_body =
               Some (CreateDraftBody
                 \<lparr> cdr_type = draftType,
                   cdr_title = title,
                   cdr_description = (case options of None \<Rightarrow> None | Some opts \<Rightarrow> cdo_description opts),
                   cdr_visibility =
                     (case (case options of None \<Rightarrow> None | Some opts \<Rightarrow> cdo_visibility opts) of
                        None \<Rightarrow> ''public''
                      | Some vis \<Rightarrow> vis) \<rparr>),
             ar_headers = None, ar_query = None \<rparr>
     in
     io_bind (io_call (FetchGkDevApi createReq) (fetchGkDevApi_CreateDraft conn createReq)) (\<lambda>createDraftRsp.
     io_bind (if \<not> rsp_ok createDraftRsp
              then handleBadDraftResponse ''Unable to create draft'' createDraftRsp
              else io_return ()) (\<lambda>_.
     io_bind (json_data createDraftRsp) (\<lambda>created.
     case created of
       None \<Rightarrow> io_throw (TypeError ''Cannot read properties of undefined (reading 'id')'')
     | Some createdDraft \<Rightarrow>
     let draftId = cd_id createdDraft;
         changesetReq =
           \<lparr> ar_path = ''v1/drafts/'' @ draftId @ ''/changesets'', ar_method = ''POST'',
             ar_body =
               Some (ChangesetBody
                 \<lparr> ccr_gitUserName = (case user of None \<Rightarrow> None | Some u \<Rightarrow> gu_name u),
                   ccr_gitUserEmail = (case user of None \<Rightarrow> None | Some u \<Rightarrow> gu_email u),
                   ccr_patches = map pfc_patch patchRequests \<rparr>),
             ar_headers = providerAuthHeader, ar_query = None \<rparr>
     in
     io_bind (io_call (FetchGkDevApi changesetReq)
                (fetchGkDevApi_ChangesetCreate conn changesetReq)) (\<lambda>createChangesetRsp.
     io_bind (if \<not> rsp_ok createChangesetRsp
              then handleBadDraftResponse
                     (''Unable to create changeset for draft '' @ [CHR 0x27] @ draftId @ [CHR 0x27])
                     createChangesetRsp
              else io_return ()) (\<lambda>_.
     io_bind (json_data createChangesetRsp) (\<lambda>changesetData.
     case changesetData of
       None \<Rightarrow> io_throw (TypeError ''Cannot read properties of undefined (reading 'patches')'')
     | Some createChangeset \<Rightarrow>
     io_bind (uploadPatches conn ct (dcc_patches createChangeset) patchRequests 0 []) (\<lambda>patches.
     let publishReq =
           \<lparr> ar_path = ''v1/drafts/'' @ draftId @ ''/publish'', ar_method = ''POST'',
             ar_body = (case prEntityIdBody of None \<Rightarrow> None | Some b \<Rightarrow> Some (PrEntityIdBody b)),
             ar_headers = providerAuthHeader, ar_query = None \<rparr>
     in
     io_bind (io_call (FetchGkDevApi publishReq) (fetchGkDevApi_Unread conn publishReq)) (\<lambda>publishRsp.
     io_bind (if \<not> rsp_ok publishRsp
              then handleBadDraftResponse
                     (''Failed to publish draft '' @ [CHR 0x27] @ draftId @ [CHR 0x27]) publishRsp
              else io_return ()) (\<lambda>_.
     let draftReq =
           \<lparr> ar_path = ''v1/drafts/'' @ draftId, ar_method = ''GET'', ar_body = None,
             ar_headers = providerAuthHeader, ar_query = None \<rparr>
     in
     io_bind (io_call (FetchGkDevApi draftReq) (fetchGkDevApi_Draft conn draftReq)) (\<lambda>draftRsp.
     io_bind (if \<not> rsp_ok draftRsp
              then handleBadDraftResponse
                     (''Unable to open draft '' @ [CHR 0x27] @ draftId @ [CHR 0x27]) draftRsp
              else io_return ()) (\<lambda>_.
     io_bind (json_data draftRsp) (\<lambda>draftData.
     io_bind (io_await (subscription_getSubscription ct)) (\<lambda>account.
     case draftData of
       None \<Rightarrow> io_throw (TypeError ''Cannot read properties of undefined (reading 'createdBy')'')
     | Some draft \<Rightarrow>
         (let newDraft =
                formatDraft draft
                  (Some \<lparr> fdo_account = account, fdo_fallbackAuthorName = None,
                          fdo_fromPrEntityId = None \<rparr>)
          in io_return
               (newDraft\<lparr> d_changesets :=
                  Some [(formatChangeset (changesetWithoutPatches createChangeset))
                          \<lparr> dc_patches := patches \<rparr>] \<rparr>))))))))))))))))))"

section \<open>A sample host and sample servers\<close>

text \<open>
  Concrete capabilities on which the operations are run below. The sample git answers a
  diff of a revision against itself with the empty diff and fails to diff from the
  revision \<open>bad\<close>; it knows no remote, so an identity is the fingerprint alone.
\<close>

definition sampleRepository :: Repository where
  "sampleRepository = \<lparr> repo_id = ''r1'', repo_path = ''/work/app'', repo_uri = ''file:///work/app'' \<rparr>"

text \<open>
  The sample parser knows the URLs of \<open>https://github.com\<close> and the URLs of the scheme
  \<open>repo\<close>, which have no authority; any other string it takes for the path of a file, made
  absolute. The sample \<open>with\<close> replaces the components given and, like the editor host,
  refuses a URI that has an authority and a path that is neither empty nor begins with a
  slash.
\<close>

definition sampleUriParse :: "string \<Rightarrow> jserror + Uri" where
  "sampleUriParse s =
     (if take 18 s = ''https://github.com''
      then Inr \<lparr> uri_scheme = ''https'', uri_authority = ''github.com'', uri_path = drop 18 s,
                  uri_query = '''', uri_fragment = '''' \<rparr>
      else if take 5 s = ''repo:''
      then Inr \<lparr> uri_scheme = ''repo'', uri_authority = '''', uri_path = drop 5 s,
                  uri_query = '''', uri_fragment = '''' \<rparr>
      else Inr \<lparr> uri_scheme = ''file'', uri_authority = '''',
                  uri_path = (if take 1 s = ''/'' then s else ''/'' @ s),
                  uri_query = '''', uri_fragment = '''' \<rparr>)"

definition sampleUriWith :: "Uri \<Rightarrow> UriChange \<Rightarrow> jserror + Uri" where
  "sampleUriWith uri change =
     (let changed =
            \<lparr> uri_scheme = (case uc_scheme change of Some s \<Rightarrow> s | None \<Rightarrow> uri_scheme uri),
              uri_authority = (case uc_authority change of Some a \<Rightarrow> a | None \<Rightarrow> uri_authority uri),
              uri_path = (case uc_path change of Some p \<Rightarrow> p | None \<Rightarrow> uri_path uri),
              uri_query = (case uc_query change of Some q \<Rightarrow> q | None \<Rightarrow> uri_query uri),
              uri_fragment = (case uc_fragment change of Some f \<Rightarrow> f | None \<Rightarrow> uri_fragment uri) \<rparr>
      in if uri_authority changed \<noteq> ''''
            \<and> (case uri_path changed of [] \<Rightarrow> False | c # cs \<Rightarrow> c \<noteq> CHR ''/'')
         then Inl (Error ''[UriError]: the path must be empty or begin with a slash'')
         else Inr changed)"

definition sampleContainer :: Container where
  "sampleContainer =
     \<lparr> git_getBranch = (\<lambda>uri. Inr (Some \<lparr> gb_name = ''main'' \<rparr>)),
       git_getCommitBranches = (\<lambda>uri refs. Inr [''main'']),
       git_getDiff =
         (\<lambda>path to from.
            if from = ''bad'' then Inl (Error ''unknown revision'')
            else Inr (Some \<lparr> gd_contents = (if from = to then '''' else ''diff '' @ from @ '' '' @ to) \<rparr>)),
       git_getFirstCommitSha = (\<lambda>uri. Inr (Some ''abc1234def'')),
       git_getBestRemoteWithProvider = (\<lambda>uri. Inr None),
       git_getCurrentUser = (\<lambda>uri. Inr (Some \<lparr> gu_name = Some ''Ada'', gu_email = None \<rparr>)),
       git_getCommit = (\<lambda>uri ref. Inr None),
       git_getDiffFiles = (\<lambda>path contents. Inr None),
       git_getOrOpenRepository = (\<lambda>uri. Inr None),
       repositoryIdentity_getRepository = (\<lambda>identity options. Inr None),
       subscription_getSubscription = Inr None,
       repository_getBestRemoteWithIntegration = (\<lambda>repository. Inr None),
       remote_getIntegration = (\<lambda>remote. Inr None),
       integrationAuthentication_getSession = (\<lambda>ident descriptor. Inr None),
       isSha = (\<lambda>ref. length ref = 40),
       isUncommitted = (\<lambda>ref. ref = ''''),
       shortenRevision = take 7,
       remoteProviderMatcher = (\<lambda>url domain path. None),
       Uri_parse = sampleUriParse,
       Uri_with = sampleUriWith,
       Schemes_Virtual = ''vscode-vfs'' \<rparr>"

definition sampleChange :: "string \<Rightarrow> string \<Rightarrow> CreateDraftChange" where
  "sampleChange from to =
     \<lparr> chg_revision = \<lparr> rev_to = to, rev_from = from \<rparr>, chg_contents = None,
       chg_repository = sampleRepository, chg_prEntityId = None \<rparr>"

definition okResponse :: "'a \<Rightarrow> 'a Response" where
  "okResponse d =
     \<lparr> rsp_ok = True, rsp_status = 200, rsp_statusText = ''OK'', rsp_json = Inr (Data d),
       rsp_text = Inr ''diff a b'' \<rparr>"

definition errorResponse :: "nat \<Rightarrow> string \<Rightarrow> string \<Rightarrow> 'a Response" where
  "errorResponse status statusText message =
     \<lparr> rsp_ok = False, rsp_status = status, rsp_statusText = statusText,
       rsp_json = Inr (ErrorString message), rsp_text = Inr '''' \<rparr>"

definition sampleDraftResponse :: DraftResponse where
  "sampleDraftResponse =
     \<lparr> dr_type = ''patch'', dr_id = ''d1'', dr_createdBy = ''u1'', dr_organizationId = None,
       dr_role = ''owner'', dr_isPublished = True, dr_createdAt = ''2024-01-01T00:00:00Z'',
       dr_updatedAt = None, dr_title = Some ''t'', dr_description = None,
       dr_deepLink = ''https://gitkraken.dev/drafts/d1'', dr_visibility = ''public'',
       dr_isArchived = False, dr_archivedBy = None, dr_archivedReason = None,
       dr_archivedAt = None, dr_latestChangesetId = ''cs1'' \<rparr>"

definition samplePatchResponse :: DraftPatchResponse where
  "samplePatchResponse =
     \<lparr> dpr_id = ''p1'', dpr_createdAt = ''2024-01-01T00:00:00Z'', dpr_updatedAt = None,
       dpr_draftId = ''d1'', dpr_changesetId = ''cs1'', dpr_userId = ''u1'',
       dpr_baseBranchName = ''main'', dpr_baseCommitSha = ''abc'', dpr_gitRepositoryId = ''g1'',
       dpr_secureDownloadData =
         Some \<lparr> sd_url = ''https://storage/p1'', sd_method = ''GET'', sd_headers = [] \<rparr> \<rparr>"

definition sampleIdentityResponse :: RepositoryIdentityResponse where
  "sampleIdentityResponse =
     \<lparr> rir_id = ''g1'', rir_createdAt = ''2024-01-01T00:00:00Z'',
       rir_updatedAt = ''2024-01-02T00:00:00Z'', rir_name = None,
       rir_initialCommitSha = Some ''abc1234def'', rir_remote = None, rir_provider = None \<rparr>"

text \<open>
  A server that accepts everything: its answer to a changeset creation lists one patch,
  with an upload target, for each patch of the request, in the order of the request.
\<close>

definition sampleConnection :: ServerConnection where
  "sampleConnection =
     \<lparr> fetchGkDevApi_CreateDraft = (\<lambda>req. Inr (okResponse \<lparr> cd_id = ''d1'' \<rparr>)),
       fetchGkDevApi_ChangesetCreate =
         (\<lambda>req. Inr (okResponse
            \<lparr> dcc_id = ''cs1'', dcc_createdAt = ''2024-01-01T00:00:00Z'', dcc_updatedAt = None,
              dcc_draftId = ''d1'', dcc_parentChangesetId = None, dcc_userId = ''u1'',
              dcc_gitUserName = None, dcc_gitUserEmail = None, dcc_deepLink = None,
              dcc_patches =
                (case ar_body req of
                   Some (ChangesetBody b) \<Rightarrow>
                     map (\<lambda>p. \<lparr> dpc_id = ''p'', dpc_createdAt = ''2024-01-01T00:00:00Z'',
                                dpc_updatedAt = None, dpc_draftId = ''d1'', dpc_changesetId = ''cs1'',
                                dpc_userId = ''u1'', dpc_baseBranchName = cpr_baseBranchName p,
                                dpc_baseCommitSha = cpr_baseCommitSha p, dpc_gitRepositoryId = ''g1'',
                                dpc_secureUploadData =
                                  \<lparr> sd_url = ''https://storage/up'', sd_method = ''PUT'',
                                    sd_headers = [] \<rparr> \<rparr>)
                       (ccr_patches b)
                 | _ \<Rightarrow> []) \<rparr>)),
       fetchGkDevApi_Draft = (\<lambda>req. Inr (okResponse sampleDraftResponse)),
       fetchGkDevApi_Drafts = (\<lambda>req. Inr (okResponse [sampleDraftResponse])),
       fetchGkDevApi_Changesets = (\<lambda>req. Inr (okResponse [])),
       fetchGkDevApi_Patch = (\<lambda>req. Inr (okResponse samplePatchResponse)),
       fetchGkDevApi_DraftModel = (\<lambda>req. Inr (okResponse (formatDraft sampleDraftResponse None))),
       fetchGkDevApi_Users = (\<lambda>req. Inr (okResponse [])),
       fetchGkDevApi_RepositoryIdentity = (\<lambda>req. Inr (okResponse sampleIdentityResponse)),
       fetchGkDevApi_Unread = (\<lambda>req. Inr (okResponse ())),
       conn_fetch = (\<lambda>req. Inr (okResponse ())) \<rparr>"

text \<open>A server that answers every request with 404, and one whose storage is unreachable.\<close>

definition notFoundConnection :: ServerConnection where
  "notFoundConnection =
     \<lparr> fetchGkDevApi_CreateDraft = (\<lambda>req. Inr (errorResponse 404 ''Not Found'' ''no such draft'')),
       fetchGkDevApi_ChangesetCreate = (\<lambda>req. Inr (errorResponse 404 ''Not Found'' ''no such draft'')),
       fetchGkDevApi_Draft = (\<lambda>req. Inr (errorResponse 404 ''Not Found'' ''no such draft'')),
       fetchGkDevApi_Drafts = (\<lambda>req. Inr (errorResponse 404 ''Not Found'' ''no such draft'')),
       fetchGkDevApi_Changesets = (\<lambda>req. Inr (errorResponse 404 ''Not Found'' ''no such draft'')),
       fetchGkDevApi_Patch = (\<lambda>req. Inr (errorResponse 404 ''Not Found'' ''no such draft'')),
       fetchGkDevApi_DraftModel = (\<lambda>req. Inr (errorResponse 404 ''Not Found'' ''no such draft'')),
       fetchGkDevApi_Users = (\<lambda>req. Inr (errorResponse 404 ''Not Found'' ''no such draft'')),
       fetchGkDevApi_RepositoryIdentity = (\<lambda>req. Inr (errorResponse 404 ''Not Found'' ''no such draft'')),
       fetchGkDevApi_Unread = (\<lambda>req. Inr (errorResponse 404 ''Not Found'' ''no such draft'')),
       conn_fetch = (\<lambda>req. Inr (errorResponse 404 ''Not Found'' ''no such draft'')) \<rparr>"

definition unreachableStorageConnection :: ServerConnection where
  "unreachableStorageConnection =
     sampleConnection\<lparr> conn_fetch := (\<lambda>req. Inl (Error ''network error'')) \<rparr>"

definition sampleIssue :: "unit IssueShape" where
  "sampleIssue =
     \<lparr> iop_type = Type_issue,
       iop_provider = \<lparr> pr_id = ''github'', pr_name = ''GitHub'', pr_domain = ''github.com'',
                        pr_icon = ''github'' \<rparr>,
       iop_id = ''42'', iop_nodeId = None, iop_title = ''A bug'',
       iop_url = ''https://github.com/acme/app/issues/42'',
       iop_createdDate = NewDate ''2024-01-01T00:00:00Z'',
       iop_updatedDate = NewDate ''2024-01-02T00:00:00Z'',
       iop_closedDate = None, iop_closed = False, iop_state = State_opened,
       iop_commentsCount = Some 3, iop_thumbsUpCount = None,
       is_author = \<lparr> im_id = ''u1'', im_name = ''Ada'', im_avatarUrl = None, im_url = None \<rparr>,
       is_assignees = [],
       is_repository =
         Some \<lparr> ir_owner = ''acme'', ir_repo = ''app'', ir_accessLevel = Some Write,
                ir_url = Some ''https://github.com/acme/app'' \<rparr>,
       is_labels = None,
       is_body = None \<rparr>"

text \<open>
  Hosts on which the repository is found at one of the three attempts: in the registry at
  once, by opening the virtual view, and at the prompting lookup only.
\<close>

definition knowingContainer :: Container where
  "knowingContainer =
     sampleContainer\<lparr> repositoryIdentity_getRepository :=
       (\<lambda>identity options. Inr (Some sampleRepository)) \<rparr>"

definition openingContainer :: Container where
  "openingContainer =
     sampleContainer\<lparr> git_getOrOpenRepository := (\<lambda>uri. Inr (Some sampleRepository)) \<rparr>"

definition promptingContainer :: Container where
  "promptingContainer =
     sampleContainer\<lparr> repositoryIdentity_getRepository :=
       (\<lambda>identity options.
          case options of
            None \<Rightarrow> Inr None
          | Some opts \<Rightarrow>
              if gro_prompt opts = Some True then Inr (Some sampleRepository) else Inr None) \<rparr>"

text \<open>
  An issue of another provider, and an issue of \<open>github\<close> whose repository URL has a path
  that does not begin with a slash.
\<close>

definition gitlabIssue :: "unit IssueShape" where
  "gitlabIssue =
     sampleIssue\<lparr> iop_provider :=
       \<lparr> pr_id = ''gitlab'', pr_name = ''GitLab'', pr_domain = ''gitlab.com'',
         pr_icon = ''gitlab'' \<rparr> \<rparr>"

definition relativeIssue :: "unit IssueShape" where
  "relativeIssue =
     sampleIssue\<lparr> is_repository :=
       Some \<lparr> ir_owner = ''acme'', ir_repo = ''app'', ir_accessLevel = None,
              ir_url = Some ''repo:acme/app'' \<rparr> \<rparr>"

section \<open>Notions the properties are stated with\<close>

subsection \<open>The spec's fallback order, for comparison with the code\<close>

text \<open>The first candidate that is present, in the order of the list.\<close>

fun firstPresent :: "'a option list \<Rightarrow> 'a option" where
  "firstPresent [] = None"
| "firstPresent (Some x # cs) = Some x"
| "firstPresent (None # cs) = firstPresent cs"

text \<open>
  The candidates for the display name of a repository identity, in the order the spec
  gives them: the payload's explicit name, the provider's repo name, the repo name the
  remote matcher derives (when the remote's url, domain and path are all present), the
  raw remote path.
\<close>

definition spec_nameCandidates :: "Container \<Rightarrow> RepositoryIdentityResponse \<Rightarrow> string option list" where
  "spec_nameCandidates ct data =
     [ rir_name data,
       (case rir_provider data of None \<Rightarrow> None | Some p \<Rightarrow> pd_repoName p),
       (case rir_remote data of
          None \<Rightarrow> None
        | Some r \<Rightarrow>
            (case (rd_url r, rd_domain r, rd_path r) of
               (Some url, Some domain, Some path) \<Rightarrow>
                 (case remoteProviderMatcher ct url domain path of
                    None \<Rightarrow> None
                  | Some provider \<Rightarrow> rp_repoName provider)
             | _ \<Rightarrow> None)),
       (case rir_remote data of None \<Rightarrow> None | Some r \<Rightarrow> rd_path r) ]"

subsection \<open>Lookups, outcomes and hydrated patches\<close>

text \<open>
  The options of a registry lookup made for an issue: open the repository if needed, do
  not keep it open, and prompt or not.
\<close>

definition lookupWithPrompt :: "bool \<Rightarrow> GetRepositoryOptions option" where
  "lookupWithPrompt prompt =
     Some \<lparr> gro_openIfNeeded = Some True, gro_keepOpen = Some False, gro_prompt = Some prompt,
            gro_skipRefValidation = None \<rparr>"

text \<open>The two flags of \<open>getOrOpenIssueRepository\<close>, read the way the code reads them.\<close>

definition skipVirtual :: "IssueRepositoryOptions option \<Rightarrow> bool" where
  "skipVirtual options = truthy_flag (case options of None \<Rightarrow> None | Some opts \<Rightarrow> iro_skipVirtual opts)"

definition promptIfNeeded :: "IssueRepositoryOptions option \<Rightarrow> bool" where
  "promptIfNeeded options =
     truthy_flag (case options of None \<Rightarrow> None | Some opts \<Rightarrow> iro_promptIfNeeded opts)"

text \<open>The reasons of the rejected outcomes and the values of the fulfilled ones, in order.\<close>

fun rejections :: "(jserror + 'a) list \<Rightarrow> jserror list" where
  "rejections [] = []"
| "rejections (Inl e # rs) = e # rejections rs"
| "rejections (Inr v # rs) = rejections rs"

fun fulfilments :: "(jserror + 'a) list \<Rightarrow> 'a list" where
  "fulfilments [] = []"
| "fulfilments (Inl e # rs) = fulfilments rs"
| "fulfilments (Inr v # rs) = v # fulfilments rs"

text \<open>A change resolves to a non-empty diff when its patch request has truthy contents.\<close>

definition nonEmptyDiff :: "CreateDraftPatchRequestFromChange \<Rightarrow> bool" where
  "nonEmptyDiff r = truthy_string (pfc_contents r)"

text \<open>
  A patch of the exposed model is the hydrated form of a patch request when it carries
  the request's contents, a file list, and the request's repository.
\<close>

definition hydrated :: "CreateDraftPatchRequestFromChange \<Rightarrow> DraftPatch \<Rightarrow> bool" where
  "hydrated r p =
     (dp_contents p = pfc_contents r \<and> pfc_contents r \<noteq> None \<and> dp_files p \<noteq> None
      \<and> dp_repository p = Some (IsRepository (pfc_repository r)))"

section \<open>Properties\<close>

subsection \<open>Sequencing\<close>

lemma spreadHeaders_Nil [simp]: "spreadHeaders base [] = base"
  by (simp add: spreadHeaders_def)

lemma io_bind_Inl [simp]: "io_bind (t, Inl e) f = (t, Inl e)"
  by (simp add: io_bind_def)

lemma io_bind_Inr [simp]: "io_bind (t, Inr x) f = (t @ fst (f x), snd (f x))"
  by (simp add: io_bind_def split: prod.splits)

lemmas io_defs = io_return_def io_throw_def io_call_def io_await_def io_settled_def

lemma io_bind_return_right [simp]: "io_bind m (\<lambda>x. ([], Inr x)) = m"
  by (cases m, case_tac b) simp_all

lemma snd_io_bind:
  "snd (io_bind m f) = (case snd m of Inl e \<Rightarrow> Inl e | Inr x \<Rightarrow> snd (f x))"
  by (cases m, case_tac b) simp_all

lemma io_bind_snd_InrE:
  assumes "snd (io_bind m f) = Inr y"
  obtains x where "snd m = Inr x" and "snd (f x) = Inr y"
  using assms by (cases m, case_tac b) auto

lemma snd_io_throw [simp]: "snd (io_throw e) = Inl e"
  by (simp add: io_throw_def)

lemma snd_io_return [simp]: "snd (io_return x) = Inr x"
  by (simp add: io_return_def)

lemma snd_io_call [simp]: "snd (io_call ev r) = r"
  by (simp add: io_call_def)

lemma snd_io_await [simp]: "snd (io_await r) = r"
  by (simp add: io_await_def)

lemma io_allSettled_calls:
  "io_allSettled (map (\<lambda>c. io_call (ev c) (f c)) xs) = (map ev xs, Inr (map f xs))"
  by (induction xs) (simp_all add: io_allSettled_def io_call_def)

subsection \<open>Reading a response\<close>

lemma handleBadDraftResponse_throws:
  "handleBadDraftResponse message rsp =
     ([ParseErrorBody],
      Inl (Error (message @ '': ('' @ string_of_nat (rsp_status rsp) @ '') '' @
                  (case rsp_json rsp of
                     Inr (ErrorString s) \<Rightarrow> s
                   | Inr (ErrorObject (Some m)) \<Rightarrow> m
                   | _ \<Rightarrow> rsp_statusText rsp))))"
  by (simp add: handleBadDraftResponse_def io_defs Let_def)

lemma snd_handleBadDraftResponse: "snd (handleBadDraftResponse message rsp) \<noteq> Inr y"
  by (simp add: handleBadDraftResponse_throws)

lemma snd_json_data:
  "snd (json_data rsp) = Inr (Some d) \<Longrightarrow> rsp_json rsp = Inr (Data d)"
  by (cases "rsp_json rsp") (auto simp: json_data_def io_defs split: json_body.splits)

subsection \<open>The serializers of issue.ts\<close>

text \<open>
  Claim C10. \<open>serializeIssueOrPullRequest\<close> and \<open>serializeIssue\<close> are idempotent
  projections: serializing a serialized value changes nothing, and every field the
  serializer retains has the value it had in the input. What is not retained: the fields
  of the provider beyond \<open>id\<close>, \<open>name\<close>, \<open>domain\<close> and \<open>icon\<close>, any field beyond the
  interface's, for \<open>serializeIssueOrPullRequest\<close> the two counts, and for
  \<open>serializeIssue\<close> the access level of the repository.
\<close>

theorem serializers_idempotent_projections:
  fixes v :: "('p, 'm) IssueOrPullRequest_scheme" and w :: "('q, 'n) IssueShape_scheme"
  shows
  "serializeIssueOrPullRequest (serializeIssueOrPullRequest v) = serializeIssueOrPullRequest v
   \<and> serializeIssue (serializeIssue w) = serializeIssue w
   \<and> serializeIssueOrPullRequest v =
       \<lparr> iop_type = iop_type v,
         iop_provider = ProviderReference.truncate (iop_provider v),
         iop_id = iop_id v, iop_nodeId = iop_nodeId v, iop_title = iop_title v,
         iop_url = iop_url v, iop_createdDate = iop_createdDate v,
         iop_updatedDate = iop_updatedDate v, iop_closedDate = iop_closedDate v,
         iop_closed = iop_closed v, iop_state = iop_state v,
         iop_commentsCount = None, iop_thumbsUpCount = None \<rparr>
   \<and> serializeIssue w =
       \<lparr> iop_type = iop_type w,
         iop_provider = ProviderReference.truncate (iop_provider w),
         iop_id = iop_id w, iop_nodeId = iop_nodeId w, iop_title = iop_title w,
         iop_url = iop_url w, iop_createdDate = iop_createdDate w,
         iop_updatedDate = iop_updatedDate w, iop_closedDate = iop_closedDate w,
         iop_closed = iop_closed w, iop_state = iop_state w,
         iop_commentsCount = iop_commentsCount w, iop_thumbsUpCount = iop_thumbsUpCount w,
         is_author = is_author w,
         is_assignees = is_assignees w,
         is_repository = map_option (\<lambda>r. r\<lparr> ir_accessLevel := None \<rparr>) (is_repository w),
         is_labels = is_labels w,
         is_body = is_body w \<rparr>"
proof -
  have member: "\<lparr> im_id = im_id a, im_name = im_name a, im_avatarUrl = im_avatarUrl a,
                   im_url = im_url a \<rparr> = a" for a :: IssueMember
    by simp
  have label: "\<lparr> il_color = il_color l, il_name = il_name l \<rparr> = l" for l :: IssueLabel
    by simp
  have once_more: "serializeIssueOrPullRequest (serializeIssueOrPullRequest v) =
      serializeIssueOrPullRequest v"
    by (simp add: serializeIssueOrPullRequest_def)
  have once_more_issue: "serializeIssue (serializeIssue w) = serializeIssue w"
    by (simp add: serializeIssue_def split: option.splits)
  have kept: "serializeIssueOrPullRequest v =
       \<lparr> iop_type = iop_type v,
         iop_provider = ProviderReference.truncate (iop_provider v),
         iop_id = iop_id v, iop_nodeId = iop_nodeId v, iop_title = iop_title v,
         iop_url = iop_url v, iop_createdDate = iop_createdDate v,
         iop_updatedDate = iop_updatedDate v, iop_closedDate = iop_closedDate v,
         iop_closed = iop_closed v, iop_state = iop_state v,
         iop_commentsCount = None, iop_thumbsUpCount = None \<rparr>"
    by (simp add: serializeIssueOrPullRequest_def ProviderReference.truncate_def)
  have kept_issue: "serializeIssue w =
       \<lparr> iop_type = iop_type w,
         iop_provider = ProviderReference.truncate (iop_provider w),
         iop_id = iop_id w, iop_nodeId = iop_nodeId w, iop_title = iop_title w,
         iop_url = iop_url w, iop_createdDate = iop_createdDate w,
         iop_updatedDate = iop_updatedDate w, iop_closedDate = iop_closedDate w,
         iop_closed = iop_closed w, iop_state = iop_state w,
         iop_commentsCount = iop_commentsCount w, iop_thumbsUpCount = iop_thumbsUpCount w,
         is_author = is_author w,
         is_assignees = is_assignees w,
         is_repository = map_option (\<lambda>r. r\<lparr> ir_accessLevel := None \<rparr>) (is_repository w),
         is_labels = is_labels w,
         is_body = is_body w \<rparr>"
    by (simp add: serializeIssue_def ProviderReference.truncate_def member label
        split: option.splits)
  from once_more once_more_issue kept kept_issue show ?thesis by blast
qed

subsection \<open>Normalizing a draft\<close>

text \<open>
  Claim C5. In \<open>formatDraft\<close> an empty input role becomes \<open>editor\<close> when the option
  \<open>fromPrEntityId\<close> is \<open>true\<close>, and \<open>viewer\<close> when it is \<open>false\<close>, absent, or no options
  are given at all; a non-empty role passes through unchanged. So the role of a
  normalized draft is never empty.
\<close>

theorem formatDraft_role_default:
  "(dr_role r = '''' \<longrightarrow>
      d_role (formatDraft r (Some (opts\<lparr> fdo_fromPrEntityId := Some True \<rparr>))) = ''editor''
      \<and> d_role (formatDraft r (Some (opts\<lparr> fdo_fromPrEntityId := Some False \<rparr>))) = ''viewer''
      \<and> d_role (formatDraft r (Some (opts\<lparr> fdo_fromPrEntityId := None \<rparr>))) = ''viewer''
      \<and> d_role (formatDraft r None) = ''viewer'')
   \<and> (dr_role r \<noteq> '''' \<longrightarrow> d_role (formatDraft r options) = dr_role r)
   \<and> d_role (formatDraft r options) \<noteq> ''''"
  by (simp add: formatDraft_def Let_def)

theorem formatDraft_role_default_witness:
  "dr_role (sampleDraftResponse\<lparr> dr_role := '''' \<rparr>) = ''''
   \<and> d_role (formatDraft (sampleDraftResponse\<lparr> dr_role := '''' \<rparr>)
        (Some \<lparr> fdo_account = None, fdo_fallbackAuthorName = Some ''Unknown'',
                fdo_fromPrEntityId = Some True \<rparr>)) = ''editor''
   \<and> d_role (formatDraft (sampleDraftResponse\<lparr> dr_role := '''' \<rparr>)
        (Some \<lparr> fdo_account = None, fdo_fallbackAuthorName = Some ''Unknown'',
                fdo_fromPrEntityId = Some False \<rparr>)) = ''viewer''
   \<and> d_role (formatDraft (sampleDraftResponse\<lparr> dr_role := '''' \<rparr>) None) = ''viewer''
   \<and> dr_role sampleDraftResponse \<noteq> ''''
   \<and> d_role (formatDraft sampleDraftResponse None) = ''owner''"
  using formatDraft_role_default
          [of "sampleDraftResponse\<lparr> dr_role := '''' \<rparr>"
              "\<lparr> fdo_account = None, fdo_fallbackAuthorName = Some ''Unknown'',
                 fdo_fromPrEntityId = None \<rparr>" None]
        formatDraft_role_default
          [of sampleDraftResponse
              "\<lparr> fdo_account = None, fdo_fallbackAuthorName = None,
                 fdo_fromPrEntityId = None \<rparr>" None]
  by (simp add: sampleDraftResponse_def)

text \<open>
  Claim C6. When the wire payload omits \<open>updatedAt\<close>, the normalized draft's \<open>updatedAt\<close>
  is the parsed \<open>createdAt\<close>; when it omits \<open>archivedAt\<close>, the normalized draft's
  \<open>archivedAt\<close> stays unset.
\<close>

theorem formatDraft_timestamps:
  "(dr_updatedAt r = None \<longrightarrow>
      d_updatedAt (formatDraft r options) = NewDate (dr_createdAt r)
      \<and> d_updatedAt (formatDraft r options) = d_createdAt (formatDraft r options))
   \<and> (dr_archivedAt r = None \<longrightarrow> d_archivedAt (formatDraft r options) = None)"
  by (simp add: formatDraft_def Let_def)

theorem formatDraft_timestamps_witness:
  "dr_updatedAt sampleDraftResponse = None
   \<and> dr_archivedAt sampleDraftResponse = None
   \<and> d_updatedAt (formatDraft sampleDraftResponse None) = NewDate ''2024-01-01T00:00:00Z''
   \<and> d_updatedAt (formatDraft sampleDraftResponse None) =
       d_createdAt (formatDraft sampleDraftResponse None)
   \<and> d_archivedAt (formatDraft sampleDraftResponse None) = None"
  using formatDraft_timestamps [of sampleDraftResponse None]
  by (simp add: sampleDraftResponse_def formatDraft_def)

subsection \<open>Responses that are not a success\<close>

text \<open>
  \<open>updateDraftVisibility\<close>, \<open>addDraftUsers\<close> and \<open>removeDraftUser\<close> test the \<open>ok\<close> flag of
  the response: on a response that is not \<open>ok\<close> they read the error body and throw, and
  never read a success body.
\<close>

lemma updateDraftVisibility_bad_status:
  assumes "fetchGkDevApi_DraftModel conn
             \<lparr> ar_path = ''/v1/drafts/'' @ ident, ar_method = ''PATCH'',
               ar_body = Some (VisibilityBody visibility), ar_headers = None,
               ar_query = None \<rparr> = Inr rsp"
      and "\<not> rsp_ok rsp"
  shows "\<exists>req msg. updateDraftVisibility conn ident visibility =
           ([FetchGkDevApi req, ParseErrorBody], Inl (Error msg))"
  using assms
  by (simp add: updateDraftVisibility_def Let_def handleBadDraftResponse_throws io_defs
      del: string_of_nat.simps)

lemma addDraftUsers_bad_status:
  assumes "fetchGkDevApi_Users conn
             \<lparr> ar_path = ''/v1/drafts/'' @ ident @ ''/users'', ar_method = ''POST'',
               ar_body = Some (UsersBody ident pendingUsers), ar_headers = None,
               ar_query = None \<rparr> = Inr rsp"
      and "\<not> rsp_ok rsp" and "pendingUsers \<noteq> []"
  shows "\<exists>req msg. addDraftUsers conn ident pendingUsers =
           ([FetchGkDevApi req, ParseErrorBody], Inl (Error msg))"
  using assms
  by (simp add: addDraftUsers_def Let_def handleBadDraftResponse_throws io_defs
      del: string_of_nat.simps)

lemma removeDraftUser_bad_status:
  assumes "fetchGkDevApi_Unread conn
             \<lparr> ar_path = ''/v1/drafts/'' @ ident @ ''/users/'' @ userId, ar_method = ''DELETE'',
               ar_body = None, ar_headers = None, ar_query = None \<rparr> = Inr rsp"
      and "\<not> rsp_ok rsp"
  shows "\<exists>req msg. removeDraftUser conn ident userId =
           ([FetchGkDevApi req, ParseErrorBody], Inl (Error msg))"
  using assms
  by (simp add: removeDraftUser_def Let_def handleBadDraftResponse_throws io_defs
      del: string_of_nat.simps)

text \<open>\<open>deleteDraft\<close> never looks at the response: whatever its status, the call fulfils.\<close>

lemma deleteDraft_any_response:
  assumes "fetchGkDevApi_Unread conn
             \<lparr> ar_path = ''v1/drafts/'' @ ident, ar_method = ''DELETE'', ar_body = None,
               ar_headers = None, ar_query = None \<rparr> = Inr rsp"
  shows "snd (deleteDraft conn ident) = Inr ()"
  using assms by (simp add: deleteDraft_def Let_def io_defs)

text \<open>
  Claim C4 says that every write or delete operation, \<open>deleteDraft\<close> among them, throws
  on a response that is not 2xx. On the server that answers 404 to everything (the
  response to the DELETE has \<open>ok = false\<close>), \<open>deleteDraft\<close> makes its call and fulfils
  without an error.
\<close>

theorem deleteDraft_ignores_status:
  "deleteDraft notFoundConnection ''d1'' =
     ([FetchGkDevApi \<lparr> ar_path = ''v1/drafts/d1'', ar_method = ''DELETE'', ar_body = None,
                        ar_headers = None, ar_query = None \<rparr>], Inr ())
   \<and> map_sum id rsp_ok (fetchGkDevApi_Unread notFoundConnection
        \<lparr> ar_path = ''v1/drafts/d1'', ar_method = ''DELETE'', ar_body = None,
          ar_headers = None, ar_query = None \<rparr>) = Inr False"
  by (simp add: deleteDraft_def notFoundConnection_def errorResponse_def io_defs)

subsection \<open>The display name of a repository identity\<close>

text \<open>
  Claim C8. When the service answers the identity request with a payload, the name of
  the identity \<open>getRepositoryIdentity\<close> returns is the first candidate present in the
  spec's order (explicit name, provider repo name, matcher-derived repo name when the
  remote's url, domain and path are all present, raw remote path); when none is present
  it is the synthesized label: the text \<open>Unknown\<close> and a space, followed, when the payload
  has a non-empty initial-commit fingerprint, by a space and the shortened fingerprint
  in parentheses.
\<close>

theorem getRepositoryIdentity_name_fallback:
  assumes "fetchGkDevApi_RepositoryIdentity conn
             \<lparr> ar_path = ''/v1/drafts/'' @ draftId @ ''/git-repositories/'' @ repoId,
               ar_method = ''GET'', ar_body = None, ar_headers = None, ar_query = None \<rparr> = Inr rsp"
      and "rsp_json rsp = Inr (Data data)"
  shows "\<exists>identity.
           snd (getRepositoryIdentity conn ct draftId repoId) = Inr identity
           \<and> rid_name identity =
               Some (case firstPresent (spec_nameCandidates ct data) of
                       Some name \<Rightarrow> name
                     | None \<Rightarrow>
                         ''Unknown '' @
                         (case rir_initialCommitSha data of
                            None \<Rightarrow> ''''
                          | Some sha \<Rightarrow>
                              if sha = '''' then '''' else '' ('' @ shortenRevision ct sha @ '')''))"
  using assms
  by (simp add: getRepositoryIdentity_def json_data_def Let_def io_defs spec_nameCandidates_def
      split: option.splits prod.splits)

theorem getRepositoryIdentity_name_fallback_witness:
  "map_sum id rsp_json (fetchGkDevApi_RepositoryIdentity sampleConnection
      \<lparr> ar_path = ''/v1/drafts/'' @ ''d1'' @ ''/git-repositories/'' @ ''g1'',
        ar_method = ''GET'', ar_body = None, ar_headers = None, ar_query = None \<rparr>) =
     Inr (Inr (Data sampleIdentityResponse))
   \<and> map_sum id rid_name (snd (getRepositoryIdentity sampleConnection sampleContainer ''d1'' ''g1'')) =
       Inr (Some ''Unknown  (abc1234)'')
   \<and> firstPresent (spec_nameCandidates sampleContainer sampleIdentityResponse) = None"
  using getRepositoryIdentity_name_fallback
          [of sampleConnection "''d1''" "''g1''" "okResponse sampleIdentityResponse"
              sampleIdentityResponse sampleContainer]
  by (simp add: sampleConnection_def okResponse_def sampleIdentityResponse_def
      sampleContainer_def spec_nameCandidates_def getRepositoryIdentity_def json_data_def
      io_defs)

subsection \<open>Resolving a repository from an identity\<close>

lemma getOrOpenIssueRepository_steps:
  fixes v :: "('p, 'm) IssueShape_scheme"
  assumes "getRepositoryIdentityForIssue v = Inr identity"
  shows "getOrOpenIssueRepository ct v options =
    (case repositoryIdentity_getRepository ct identity (lookupWithPrompt False) of
       Inl e \<Rightarrow> ([GetRepository identity (lookupWithPrompt False)], Inl e)
     | Inr (Some r) \<Rightarrow> ([GetRepository identity (lookupWithPrompt False)], Inr (Some r))
     | Inr None \<Rightarrow>
        (case (if skipVirtual options then Inr None else getVirtualUriForIssue ct v) of
           Inl e \<Rightarrow> ([GetRepository identity (lookupWithPrompt False)], Inl e)
         | Inr None \<Rightarrow>
             (if promptIfNeeded options
              then ([GetRepository identity (lookupWithPrompt False),
                     GetRepository identity (lookupWithPrompt True)],
                    repositoryIdentity_getRepository ct identity (lookupWithPrompt True))
              else ([GetRepository identity (lookupWithPrompt False)], Inr None))
         | Inr (Some u) \<Rightarrow>
             (case git_getOrOpenRepository ct u of
                Inl e \<Rightarrow> ([GetRepository identity (lookupWithPrompt False), GetOrOpenRepository u], Inl e)
              | Inr (Some r) \<Rightarrow>
                  ([GetRepository identity (lookupWithPrompt False), GetOrOpenRepository u], Inr (Some r))
              | Inr None \<Rightarrow>
                  (if promptIfNeeded options
                   then ([GetRepository identity (lookupWithPrompt False), GetOrOpenRepository u,
                          GetRepository identity (lookupWithPrompt True)],
                         repositoryIdentity_getRepository ct identity (lookupWithPrompt True))
                   else ([GetRepository identity (lookupWithPrompt False), GetOrOpenRepository u],
                         Inr None)))))"
  using assms
  by (simp add: getOrOpenIssueRepository_def lookupWithPrompt_def skipVirtual_def
      promptIfNeeded_def Let_def io_defs split: sum.splits option.splits)

lemma getVirtualUriForIssue_github:
  "getVirtualUriForIssue ct v = Inr (Some u) \<Longrightarrow> pr_id (iop_provider v) = ''github''"
  by (simp add: getVirtualUriForIssue_def split: option.splits if_splits sum.splits)

lemma getVirtualUriForIssue_steps:
  assumes "is_repository v = Some repository"
  shows "getVirtualUriForIssue ct v =
    (if pr_id (iop_provider v) = ''github''
     then
       (case Uri_parse ct (case ir_url repository of Some url \<Rightarrow> url | None \<Rightarrow> iop_url v) of
          Inl e \<Rightarrow> Inl e
        | Inr uri \<Rightarrow>
            map_sum id Some
              (Uri_with ct uri
                 \<lparr> uc_scheme = Some (Schemes_Virtual ct), uc_authority = Some ''github'',
                   uc_path = Some (uri_path uri), uc_query = None, uc_fragment = None \<rparr>))
     else Inr None)"
  using assms by (simp add: getVirtualUriForIssue_def split: sum.splits)

lemma getOrOpenIssueRepository_trace:
  fixes v :: "('p, 'm) IssueShape_scheme"
  assumes "getRepositoryIdentityForIssue v = Inr identity"
  shows "\<exists>vs ps.
           fst (getOrOpenIssueRepository ct v options) =
             GetRepository identity (lookupWithPrompt False) # vs @ ps
           \<and> (vs = [] \<or>
               (\<exists>u. vs = [GetOrOpenRepository u]
                    \<and> getVirtualUriForIssue ct v = Inr (Some u)
                    \<and> pr_id (iop_provider v) = ''github''
                    \<and> \<not> skipVirtual options
                    \<and> repositoryIdentity_getRepository ct identity (lookupWithPrompt False) = Inr None))
           \<and> (ps = [] \<or>
               (ps = [GetRepository identity (lookupWithPrompt True)]
                \<and> promptIfNeeded options
                \<and> repositoryIdentity_getRepository ct identity (lookupWithPrompt False) = Inr None
                \<and> (vs = [] \<or>
                    (\<exists>u. vs = [GetOrOpenRepository u] \<and> git_getOrOpenRepository ct u = Inr None))))"
proof -
  let ?D = "GetRepository identity (lookupWithPrompt False)"
  let ?P = "GetRepository identity (lookupWithPrompt True)"
  let ?T = "fst (getOrOpenIssueRepository ct v options)"
  let ?d = "repositoryIdentity_getRepository ct identity (lookupWithPrompt False)"
  note steps = getOrOpenIssueRepository_steps [OF assms, of ct options]
  have "?T = [?D]
      \<or> (?T = [?D, ?P] \<and> promptIfNeeded options \<and> ?d = Inr None)
      \<or> (\<exists>u. ?T = [?D, GetOrOpenRepository u] \<and> ?d = Inr None
             \<and> \<not> skipVirtual options \<and> getVirtualUriForIssue ct v = Inr (Some u))
      \<or> (\<exists>u. ?T = [?D, GetOrOpenRepository u, ?P] \<and> ?d = Inr None
             \<and> \<not> skipVirtual options \<and> getVirtualUriForIssue ct v = Inr (Some u)
             \<and> git_getOrOpenRepository ct u = Inr None \<and> promptIfNeeded options)"
    unfolding steps by (auto split: sum.splits option.splits if_splits)
  then consider (direct) "?T = [?D]"
    | (prompt) "?T = [?D, ?P]" "promptIfNeeded options" "?d = Inr None"
    | (virtual) u where "?T = [?D, GetOrOpenRepository u]" "?d = Inr None"
        "\<not> skipVirtual options" "getVirtualUriForIssue ct v = Inr (Some u)"
    | (all) u where "?T = [?D, GetOrOpenRepository u, ?P]" "?d = Inr None"
        "\<not> skipVirtual options" "getVirtualUriForIssue ct v = Inr (Some u)"
        "git_getOrOpenRepository ct u = Inr None" "promptIfNeeded options"
    by blast
  then show ?thesis
  proof cases
    case direct
    then show ?thesis by (intro exI [of _ "[]"]) simp
  next
    case prompt
    show ?thesis
      by (rule exI [of _ "[]"], rule exI [of _ "[?P]"]) (simp add: prompt)
  next
    case virtual
    show ?thesis
      by (rule exI [of _ "[GetOrOpenRepository u]"], rule exI [of _ "[]"])
         (simp add: virtual getVirtualUriForIssue_github [OF virtual(4)])
  next
    case all
    show ?thesis
      by (rule exI [of _ "[GetOrOpenRepository u]"], rule exI [of _ "[?P]"])
         (simp add: all getVirtualUriForIssue_github [OF all(4)])
  qed
qed

lemma getOrOpenIssueRepository_throws:
  fixes v :: "('p, 'm) IssueShape_scheme"
  assumes "getRepositoryIdentityForIssue v = Inr identity"
      and "snd (getOrOpenIssueRepository ct v options) = Inl e"
  shows "repositoryIdentity_getRepository ct identity (lookupWithPrompt False) = Inl e
       \<or> (\<not> skipVirtual options \<and> getVirtualUriForIssue ct v = Inl e)
       \<or> (\<exists>u. \<not> skipVirtual options \<and> getVirtualUriForIssue ct v = Inr (Some u)
               \<and> git_getOrOpenRepository ct u = Inl e)
       \<or> (promptIfNeeded options
           \<and> repositoryIdentity_getRepository ct identity (lookupWithPrompt True) = Inl e)"
  using assms(2) unfolding getOrOpenIssueRepository_steps [OF assms(1), of ct options]
  by (auto split: sum.splits option.splits if_splits)

lemma getOrOpenIssueRepository_unresolved:
  fixes v :: "('p, 'm) IssueShape_scheme"
  assumes "getRepositoryIdentityForIssue v = Inr identity"
      and "repositoryIdentity_getRepository ct identity (lookupWithPrompt False) = Inr None"
      and "repositoryIdentity_getRepository ct identity (lookupWithPrompt True) = Inr None"
      and "\<forall>u. git_getOrOpenRepository ct u = Inr None"
      and "skipVirtual options \<or> (\<exists>u. getVirtualUriForIssue ct v = Inr u)"
  shows "snd (getOrOpenIssueRepository ct v options) = Inr None"
  unfolding getOrOpenIssueRepository_steps [OF assms(1), of ct options]
  using assms(2-5) by (auto split: option.splits)

lemma getRepositoryOrIdentity_steps:
  "getRepositoryOrIdentity conn ct draftId repoId options =
     (case snd (getRepositoryIdentity conn ct draftId repoId) of
        Inl e \<Rightarrow> (fst (getRepositoryIdentity conn ct draftId repoId), Inl e)
      | Inr identity \<Rightarrow>
          (fst (getRepositoryIdentity conn ct draftId repoId) @
             [GetRepository (RepositoryIdentityDescriptor.truncate identity) options],
           case repositoryIdentity_getRepository ct
                  (RepositoryIdentityDescriptor.truncate identity) options of
             Inl e \<Rightarrow> Inl e
           | Inr None \<Rightarrow> Inr (IsIdentity identity)
           | Inr (Some r) \<Rightarrow> Inr (IsRepository r)))"
  by (cases "getRepositoryIdentity conn ct draftId repoId")
     (simp add: getRepositoryOrIdentity_def io_defs split: sum.splits option.splits)

lemma getRepositoryOrIdentity_result:
  assumes "snd (getRepositoryIdentity conn ct draftId repoId) = Inr identity"
  shows "snd (getRepositoryOrIdentity conn ct draftId repoId options) =
           (case repositoryIdentity_getRepository ct
                   (RepositoryIdentityDescriptor.truncate identity) options of
              Inl e \<Rightarrow> Inl e
            | Inr None \<Rightarrow> Inr (IsIdentity identity)
            | Inr (Some r) \<Rightarrow> Inr (IsRepository r))"
  using assms by (simp add: getRepositoryOrIdentity_steps split: sum.splits option.splits)

text \<open>
  Claim C9. For an issue that names its repository, the run of \<open>getOrOpenIssueRepository\<close>
  is fixed by what the three attempts answer, its calls and its result alike. It first
  asks the registry without prompting, and a repository found there is returned at once.
  If that finds nothing and \<open>skipVirtual\<close> is not set, it builds the virtual URI, which
  exists for the provider \<open>github\<close> alone (for any other provider there is none and nothing
  is opened), opens the virtual view at it, and returns a repository found there. If
  nothing is found by then and \<open>promptIfNeeded\<close> is set, it asks the registry again, with
  prompting, and returns what that answers; otherwise it returns \<open>undefined\<close>. It throws
  only what the registry, the construction of the URI or the opening of the view throws;
  attempts that find nothing give \<open>undefined\<close>. And \<open>getRepositoryOrIdentity\<close>, once the
  identity is fetched, asks the registry once for it, with the caller's options, and
  returns the repository found, or the identity itself when none is.
\<close>

theorem repository_resolution_order:
  fixes v :: "('p, 'm) IssueShape_scheme"
  assumes "is_repository v = Some repository"
      and "getRepositoryIdentityForIssue v = Inr identity"
  shows
    "getOrOpenIssueRepository ct v options =
      (case repositoryIdentity_getRepository ct identity (lookupWithPrompt False) of
         Inl e \<Rightarrow> ([GetRepository identity (lookupWithPrompt False)], Inl e)
       | Inr (Some r) \<Rightarrow> ([GetRepository identity (lookupWithPrompt False)], Inr (Some r))
       | Inr None \<Rightarrow>
          (case (if skipVirtual options then Inr None else getVirtualUriForIssue ct v) of
             Inl e \<Rightarrow> ([GetRepository identity (lookupWithPrompt False)], Inl e)
           | Inr None \<Rightarrow>
               (if promptIfNeeded options
                then ([GetRepository identity (lookupWithPrompt False),
                       GetRepository identity (lookupWithPrompt True)],
                      repositoryIdentity_getRepository ct identity (lookupWithPrompt True))
                else ([GetRepository identity (lookupWithPrompt False)], Inr None))
           | Inr (Some u) \<Rightarrow>
               (case git_getOrOpenRepository ct u of
                  Inl e \<Rightarrow>
                    ([GetRepository identity (lookupWithPrompt False), GetOrOpenRepository u], Inl e)
                | Inr (Some r) \<Rightarrow>
                    ([GetRepository identity (lookupWithPrompt False), GetOrOpenRepository u],
                     Inr (Some r))
                | Inr None \<Rightarrow>
                    (if promptIfNeeded options
                     then ([GetRepository identity (lookupWithPrompt False), GetOrOpenRepository u,
                            GetRepository identity (lookupWithPrompt True)],
                           repositoryIdentity_getRepository ct identity (lookupWithPrompt True))
                     else ([GetRepository identity (lookupWithPrompt False), GetOrOpenRepository u],
                           Inr None)))))
     \<and> getVirtualUriForIssue ct v =
         (if pr_id (iop_provider v) = ''github''
          then
            (case Uri_parse ct (case ir_url repository of Some url \<Rightarrow> url | None \<Rightarrow> iop_url v) of
               Inl e \<Rightarrow> Inl e
             | Inr uri \<Rightarrow>
                 map_sum id Some
                   (Uri_with ct uri
                      \<lparr> uc_scheme = Some (Schemes_Virtual ct), uc_authority = Some ''github'',
                        uc_path = Some (uri_path uri), uc_query = None, uc_fragment = None \<rparr>))
          else Inr None)
     \<and> (snd (getOrOpenIssueRepository ct v options) = Inl e
        \<longrightarrow> repositoryIdentity_getRepository ct identity (lookupWithPrompt False) = Inl e
            \<or> (\<not> skipVirtual options \<and> getVirtualUriForIssue ct v = Inl e)
            \<or> (\<exists>u. \<not> skipVirtual options \<and> getVirtualUriForIssue ct v = Inr (Some u)
                    \<and> git_getOrOpenRepository ct u = Inl e)
            \<or> (promptIfNeeded options
                \<and> repositoryIdentity_getRepository ct identity (lookupWithPrompt True) = Inl e))
     \<and> (repositoryIdentity_getRepository ct identity (lookupWithPrompt False) = Inr None
          \<and> repositoryIdentity_getRepository ct identity (lookupWithPrompt True) = Inr None
          \<and> (\<forall>u. git_getOrOpenRepository ct u = Inr None)
          \<and> (skipVirtual options \<or> (\<exists>u. getVirtualUriForIssue ct v = Inr u))
        \<longrightarrow> snd (getOrOpenIssueRepository ct v options) = Inr None)
     \<and> (snd (getRepositoryIdentity conn ct draftId repoId) = Inr known
        \<longrightarrow> getRepositoryOrIdentity conn ct draftId repoId lookup =
              (fst (getRepositoryIdentity conn ct draftId repoId) @
                 [GetRepository (RepositoryIdentityDescriptor.truncate known) lookup],
               case repositoryIdentity_getRepository ct
                      (RepositoryIdentityDescriptor.truncate known) lookup of
                 Inl e \<Rightarrow> Inl e
               | Inr None \<Rightarrow> Inr (IsIdentity known)
               | Inr (Some r) \<Rightarrow> Inr (IsRepository r)))"
proof (intro conjI impI)
  show "getOrOpenIssueRepository ct v options =
      (case repositoryIdentity_getRepository ct identity (lookupWithPrompt False) of
         Inl e \<Rightarrow> ([GetRepository identity (lookupWithPrompt False)], Inl e)
       | Inr (Some r) \<Rightarrow> ([GetRepository identity (lookupWithPrompt False)], Inr (Some r))
       | Inr None \<Rightarrow>
          (case (if skipVirtual options then Inr None else getVirtualUriForIssue ct v) of
             Inl e \<Rightarrow> ([GetRepository identity (lookupWithPrompt False)], Inl e)
           | Inr None \<Rightarrow>
               (if promptIfNeeded options
                then ([GetRepository identity (lookupWithPrompt False),
                       GetRepository identity (lookupWithPrompt True)],
                      repositoryIdentity_getRepository ct identity (lookupWithPrompt True))
                else ([GetRepository identity (lookupWithPrompt False)], Inr None))
           | Inr (Some u) \<Rightarrow>
               (case git_getOrOpenRepository ct u of
                  Inl e \<Rightarrow>
                    ([GetRepository identity (lookupWithPrompt False), GetOrOpenRepository u], Inl e)
                | Inr (Some r) \<Rightarrow>
                    ([GetRepository identity (lookupWithPrompt False), GetOrOpenRepository u],
                     Inr (Some r))
                | Inr None \<Rightarrow>
                    (if promptIfNeeded options
                     then ([GetRepository identity (lookupWithPrompt False), GetOrOpenRepository u,
                            GetRepository identity (lookupWithPrompt True)],
                           repositoryIdentity_getRepository ct identity (lookupWithPrompt True))
                     else ([GetRepository identity (lookupWithPrompt False), GetOrOpenRepository u],
                           Inr None)))))"
    by (rule getOrOpenIssueRepository_steps [OF assms(2)])
next
  show "getVirtualUriForIssue ct v =
         (if pr_id (iop_provider v) = ''github''
          then
            (case Uri_parse ct (case ir_url repository of Some url \<Rightarrow> url | None \<Rightarrow> iop_url v) of
               Inl e \<Rightarrow> Inl e
             | Inr uri \<Rightarrow>
                 map_sum id Some
                   (Uri_with ct uri
                      \<lparr> uc_scheme = Some (Schemes_Virtual ct), uc_authority = Some ''github'',
                        uc_path = Some (uri_path uri), uc_query = None, uc_fragment = None \<rparr>))
          else Inr None)"
    by (rule getVirtualUriForIssue_steps [OF assms(1)])
next
  assume "snd (getOrOpenIssueRepository ct v options) = Inl e"
  then show "repositoryIdentity_getRepository ct identity (lookupWithPrompt False) = Inl e
            \<or> (\<not> skipVirtual options \<and> getVirtualUriForIssue ct v = Inl e)
            \<or> (\<exists>u. \<not> skipVirtual options \<and> getVirtualUriForIssue ct v = Inr (Some u)
                    \<and> git_getOrOpenRepository ct u = Inl e)
            \<or> (promptIfNeeded options
                \<and> repositoryIdentity_getRepository ct identity (lookupWithPrompt True) = Inl e)"
    by (rule getOrOpenIssueRepository_throws [OF assms(2)])
next
  assume "repositoryIdentity_getRepository ct identity (lookupWithPrompt False) = Inr None
          \<and> repositoryIdentity_getRepository ct identity (lookupWithPrompt True) = Inr None
          \<and> (\<forall>u. git_getOrOpenRepository ct u = Inr None)
          \<and> (skipVirtual options \<or> (\<exists>u. getVirtualUriForIssue ct v = Inr u))"
  then show "snd (getOrOpenIssueRepository ct v options) = Inr None"
    using getOrOpenIssueRepository_unresolved [OF assms(2), of ct options] by blast
next
  assume "snd (getRepositoryIdentity conn ct draftId repoId) = Inr known"
  then show "getRepositoryOrIdentity conn ct draftId repoId lookup =
              (fst (getRepositoryIdentity conn ct draftId repoId) @
                 [GetRepository (RepositoryIdentityDescriptor.truncate known) lookup],
               case repositoryIdentity_getRepository ct
                      (RepositoryIdentityDescriptor.truncate known) lookup of
                 Inl e \<Rightarrow> Inl e
               | Inr None \<Rightarrow> Inr (IsIdentity known)
               | Inr (Some r) \<Rightarrow> Inr (IsRepository r))"
    by (simp add: getRepositoryOrIdentity_steps)
qed

theorem repository_resolution_order_witness:
  "\<exists>identity relative other known u.
      is_repository sampleIssue \<noteq> None
      \<and> getRepositoryIdentityForIssue sampleIssue = Inr identity
      \<and> u = \<lparr> uri_scheme = ''vscode-vfs'', uri_authority = ''github'', uri_path = ''/acme/app'',
              uri_query = '''', uri_fragment = '''' \<rparr>
      \<and> getVirtualUriForIssue sampleContainer sampleIssue = Inr (Some u)
      \<and> getOrOpenIssueRepository sampleContainer sampleIssue
          (Some \<lparr> iro_promptIfNeeded = Some True, iro_skipVirtual = None \<rparr>) =
          ([GetRepository identity (lookupWithPrompt False), GetOrOpenRepository u,
            GetRepository identity (lookupWithPrompt True)], Inr None)
      \<and> getOrOpenIssueRepository sampleContainer sampleIssue None =
          ([GetRepository identity (lookupWithPrompt False), GetOrOpenRepository u], Inr None)
      \<and> getOrOpenIssueRepository sampleContainer sampleIssue
          (Some \<lparr> iro_promptIfNeeded = None, iro_skipVirtual = Some True \<rparr>) =
          ([GetRepository identity (lookupWithPrompt False)], Inr None)
      \<and> getOrOpenIssueRepository knowingContainer sampleIssue
          (Some \<lparr> iro_promptIfNeeded = Some True, iro_skipVirtual = None \<rparr>) =
          ([GetRepository identity (lookupWithPrompt False)], Inr (Some sampleRepository))
      \<and> getOrOpenIssueRepository openingContainer sampleIssue
          (Some \<lparr> iro_promptIfNeeded = Some True, iro_skipVirtual = None \<rparr>) =
          ([GetRepository identity (lookupWithPrompt False), GetOrOpenRepository u],
           Inr (Some sampleRepository))
      \<and> getOrOpenIssueRepository promptingContainer sampleIssue
          (Some \<lparr> iro_promptIfNeeded = Some True, iro_skipVirtual = None \<rparr>) =
          ([GetRepository identity (lookupWithPrompt False), GetOrOpenRepository u,
            GetRepository identity (lookupWithPrompt True)], Inr (Some sampleRepository))
      \<and> getRepositoryIdentityForIssue gitlabIssue = Inr other
      \<and> getVirtualUriForIssue promptingContainer gitlabIssue = Inr None
      \<and> getOrOpenIssueRepository promptingContainer gitlabIssue
          (Some \<lparr> iro_promptIfNeeded = Some True, iro_skipVirtual = None \<rparr>) =
          ([GetRepository other (lookupWithPrompt False),
            GetRepository other (lookupWithPrompt True)], Inr (Some sampleRepository))
      \<and> getRepositoryIdentityForIssue relativeIssue = Inr relative
      \<and> getOrOpenIssueRepository sampleContainer relativeIssue None =
          ([GetRepository relative (lookupWithPrompt False)],
           Inl (Error ''[UriError]: the path must be empty or begin with a slash''))
      \<and> getVirtualUriForIssue sampleContainer relativeIssue =
          Inl (Error ''[UriError]: the path must be empty or begin with a slash'')
      \<and> (\<forall>uri. git_getOrOpenRepository sampleContainer uri = Inr None)
      \<and> snd (getOrOpenIssueRepository sampleContainer sampleIssue
               (Some \<lparr> iro_promptIfNeeded = Some True, iro_skipVirtual = None \<rparr>)) = Inr None
      \<and> snd (getRepositoryIdentity sampleConnection sampleContainer ''d1'' ''g1'') = Inr known
      \<and> getRepositoryOrIdentity sampleConnection sampleContainer ''d1'' ''g1'' None =
          (fst (getRepositoryIdentity sampleConnection sampleContainer ''d1'' ''g1'') @
             [GetRepository (RepositoryIdentityDescriptor.truncate known) None],
           Inr (IsIdentity known))
      \<and> snd (getRepositoryIdentity sampleConnection knowingContainer ''d1'' ''g1'') = Inr known
      \<and> getRepositoryOrIdentity sampleConnection knowingContainer ''d1'' ''g1'' None =
          (fst (getRepositoryIdentity sampleConnection knowingContainer ''d1'' ''g1'') @
             [GetRepository (RepositoryIdentityDescriptor.truncate known) None],
           Inr (IsRepository sampleRepository))"
proof -
  let ?prompt = "Some \<lparr> iro_promptIfNeeded = Some True, iro_skipVirtual = None \<rparr>"
  let ?skip = "Some \<lparr> iro_promptIfNeeded = None, iro_skipVirtual = Some True \<rparr>"
  let ?u = "\<lparr> uri_scheme = ''vscode-vfs'', uri_authority = ''github'', uri_path = ''/acme/app'',
             uri_query = '''', uri_fragment = '''' \<rparr>"
  note hosts = sampleContainer_def knowingContainer_def openingContainer_def
    promptingContainer_def sampleUriParse_def sampleUriWith_def
  note flags = lookupWithPrompt_def skipVirtual_def promptIfNeeded_def
  obtain repository where repo: "is_repository sampleIssue = Some repository"
    and url: "ir_url repository = Some ''https://github.com/acme/app''"
    by (simp add: sampleIssue_def)
  obtain identity where named: "getRepositoryIdentityForIssue sampleIssue = Inr identity"
    by (simp add: getRepositoryIdentityForIssue_def sampleIssue_def)
  have github: "pr_id (iop_provider sampleIssue) = ''github''"
    by (simp add: sampleIssue_def)
  obtain repository' where repo': "is_repository gitlabIssue = Some repository'"
    by (simp add: gitlabIssue_def sampleIssue_def)
  obtain other where named': "getRepositoryIdentityForIssue gitlabIssue = Inr other"
    by (simp add: getRepositoryIdentityForIssue_def gitlabIssue_def sampleIssue_def)
  have gitlab: "pr_id (iop_provider gitlabIssue) = ''gitlab''"
    by (simp add: gitlabIssue_def)
  obtain repository'' where repo'': "is_repository relativeIssue = Some repository''"
    and url'': "ir_url repository'' = Some ''repo:acme/app''"
    by (simp add: relativeIssue_def)
  obtain relative where named'': "getRepositoryIdentityForIssue relativeIssue = Inr relative"
    by (simp add: getRepositoryIdentityForIssue_def relativeIssue_def sampleIssue_def)
  have github'': "pr_id (iop_provider relativeIssue) = ''github''"
    by (simp add: relativeIssue_def sampleIssue_def)
  obtain known where
    fetched: "snd (getRepositoryIdentity sampleConnection sampleContainer ''d1'' ''g1'') = Inr known"
    and fetched':
      "snd (getRepositoryIdentity sampleConnection knowingContainer ''d1'' ''g1'') = Inr known"
    by (simp add: getRepositoryIdentity_def json_data_def sampleConnection_def okResponse_def
        sampleIdentityResponse_def io_defs hosts)
  note sample = repository_resolution_order [OF repo named, where lookup = None]
  note gitlabs = repository_resolution_order [OF repo' named']
  note relatives = repository_resolution_order [OF repo'' named'']
  have virtual: "getVirtualUriForIssue ct sampleIssue = Inr (Some ?u)"
    if "Uri_parse ct = sampleUriParse" "Uri_with ct = sampleUriWith"
       "Schemes_Virtual ct = ''vscode-vfs''" for ct
    using sample [of ct, THEN conjunct2, THEN conjunct1] that
    by (simp add: github url sampleUriParse_def sampleUriWith_def)
  have virtual_sample: "getVirtualUriForIssue sampleContainer sampleIssue = Inr (Some ?u)"
    by (rule virtual) (simp_all add: hosts)
  have virtual_opening: "getVirtualUriForIssue openingContainer sampleIssue = Inr (Some ?u)"
    by (rule virtual) (simp_all add: hosts)
  have virtual_prompting: "getVirtualUriForIssue promptingContainer sampleIssue = Inr (Some ?u)"
    by (rule virtual) (simp_all add: hosts)
  have no_virtual: "getVirtualUriForIssue ct gitlabIssue = Inr None" for ct
    using gitlabs [of ct, THEN conjunct2, THEN conjunct1] by (simp add: gitlab)
  have bad_virtual: "getVirtualUriForIssue sampleContainer relativeIssue =
      Inl (Error ''[UriError]: the path must be empty or begin with a slash'')"
    using relatives [of sampleContainer, THEN conjunct2, THEN conjunct1]
    by (simp add: github'' url'' hosts)
  have run_all: "getOrOpenIssueRepository sampleContainer sampleIssue ?prompt =
      ([GetRepository identity (lookupWithPrompt False), GetOrOpenRepository ?u,
        GetRepository identity (lookupWithPrompt True)], Inr None)"
    by (simp only: sample [of sampleContainer ?prompt, THEN conjunct1] virtual_sample)
       (simp add: flags hosts)
  have run_plain: "getOrOpenIssueRepository sampleContainer sampleIssue None =
      ([GetRepository identity (lookupWithPrompt False), GetOrOpenRepository ?u], Inr None)"
    by (simp only: sample [of sampleContainer None, THEN conjunct1] virtual_sample)
       (simp add: flags hosts)
  have run_skip: "getOrOpenIssueRepository sampleContainer sampleIssue ?skip =
      ([GetRepository identity (lookupWithPrompt False)], Inr None)"
    by (simp only: sample [of sampleContainer ?skip, THEN conjunct1])
       (simp add: flags hosts)
  have run_known: "getOrOpenIssueRepository knowingContainer sampleIssue ?prompt =
      ([GetRepository identity (lookupWithPrompt False)], Inr (Some sampleRepository))"
    by (simp only: sample [of knowingContainer ?prompt, THEN conjunct1])
       (simp add: flags hosts)
  have run_opened: "getOrOpenIssueRepository openingContainer sampleIssue ?prompt =
      ([GetRepository identity (lookupWithPrompt False), GetOrOpenRepository ?u],
       Inr (Some sampleRepository))"
    by (simp only: sample [of openingContainer ?prompt, THEN conjunct1] virtual_opening)
       (simp add: flags hosts)
  have run_prompted: "getOrOpenIssueRepository promptingContainer sampleIssue ?prompt =
      ([GetRepository identity (lookupWithPrompt False), GetOrOpenRepository ?u,
        GetRepository identity (lookupWithPrompt True)], Inr (Some sampleRepository))"
    by (simp only: sample [of promptingContainer ?prompt, THEN conjunct1] virtual_prompting)
       (simp add: flags hosts)
  have run_gitlab: "getOrOpenIssueRepository promptingContainer gitlabIssue ?prompt =
      ([GetRepository other (lookupWithPrompt False),
        GetRepository other (lookupWithPrompt True)], Inr (Some sampleRepository))"
    by (simp only: gitlabs [of promptingContainer ?prompt, THEN conjunct1] no_virtual)
       (simp add: flags hosts)
  have run_relative: "getOrOpenIssueRepository sampleContainer relativeIssue None =
      ([GetRepository relative (lookupWithPrompt False)],
       Inl (Error ''[UriError]: the path must be empty or begin with a slash''))"
    by (simp only: relatives [of sampleContainer None, THEN conjunct1] bad_virtual)
       (simp add: flags hosts)
  have unresolved: "snd (getOrOpenIssueRepository sampleContainer sampleIssue ?prompt) = Inr None"
    using sample [of sampleContainer ?prompt, THEN conjunct2, THEN conjunct2, THEN conjunct2,
                    THEN conjunct1]
    by (simp add: virtual_sample flags) (simp add: hosts)
  have thrown: "getVirtualUriForIssue sampleContainer relativeIssue =
      Inl (Error ''[UriError]: the path must be empty or begin with a slash'')"
  proof -
    have "snd (getOrOpenIssueRepository sampleContainer relativeIssue None) =
            Inl (Error ''[UriError]: the path must be empty or begin with a slash'')"
      by (simp only: run_relative snd_conv)
    from relatives [of sampleContainer None
                       "Error ''[UriError]: the path must be empty or begin with a slash''",
                     THEN conjunct2, THEN conjunct2, THEN conjunct1, rule_format, OF this]
    show ?thesis by (simp add: flags hosts)
  qed
  have identity_back:
    "getRepositoryOrIdentity sampleConnection sampleContainer ''d1'' ''g1'' None =
       (fst (getRepositoryIdentity sampleConnection sampleContainer ''d1'' ''g1'') @
          [GetRepository (RepositoryIdentityDescriptor.truncate known) None],
        Inr (IsIdentity known))"
    using sample [of sampleContainer None _ sampleConnection "''d1''" "''g1''" known,
                    THEN conjunct2, THEN conjunct2, THEN conjunct2, THEN conjunct2] fetched
    by (simp add: hosts)
  have repository_back:
    "getRepositoryOrIdentity sampleConnection knowingContainer ''d1'' ''g1'' None =
       (fst (getRepositoryIdentity sampleConnection knowingContainer ''d1'' ''g1'') @
          [GetRepository (RepositoryIdentityDescriptor.truncate known) None],
        Inr (IsRepository sampleRepository))"
    using sample [of knowingContainer None _ sampleConnection "''d1''" "''g1''" known,
                    THEN conjunct2, THEN conjunct2, THEN conjunct2, THEN conjunct2] fetched'
    by (simp add: hosts)
  show ?thesis
    apply (rule exI [of _ identity], rule exI [of _ relative], rule exI [of _ other],
        rule exI [of _ known], rule exI [of _ ?u])
    apply (simp only: repo named named' named'' virtual_sample
        no_virtual run_all run_plain run_skip run_known run_opened run_prompted run_gitlab
        run_relative thrown unresolved fetched fetched' identity_back repository_back)
    apply (simp add: hosts)
    done
qed

subsection \<open>Creating a draft: the settled results\<close>

lemma collectResults_patchRequests:
  "fst (collectResults rs (ps, fs, u)) = ps @ filter nonEmptyDiff (fulfilments rs)"
  by (induction rs "(ps, fs, u)" arbitrary: ps fs u rule: collectResults.induct)
     (simp_all add: nonEmptyDiff_def)

lemma collectResults_failed:
  "fst (snd (collectResults rs (ps, fs, u))) = fs @ rejections rs"
  by (induction rs "(ps, fs, u)" arbitrary: ps fs u rule: collectResults.induct) simp_all

lemma collectResults_skips_empty:
  "\<not> nonEmptyDiff v \<Longrightarrow>
     collectResults (xs @ Inr v # ys) acc = collectResults (xs @ ys) acc"
proof (induction xs arbitrary: acc)
  case Nil
  then show ?case by (cases acc) (simp add: nonEmptyDiff_def)
next
  case (Cons x xs)
  then show ?case by (cases acc; cases x) simp_all
qed

lemma rejections_length:
  "length (rejections (map f xs)) = length (filter (\<lambda>x. isl (f x)) xs)"
proof (induction xs)
  case Nil
  show ?case by simp
next
  case (Cons x xs)
  then show ?case by (cases "f x") simp_all
qed

lemma rejections_map_nonempty:
  "x \<in> set xs \<Longrightarrow> f x = Inl e \<Longrightarrow> rejections (map f xs) \<noteq> []"
proof (induction xs)
  case Nil
  then show ?case by simp
next
  case (Cons y ys)
  then show ?case by (cases "f y") auto
qed

lemma rejections_none: "rejections rs = [] \<Longrightarrow> rs = map Inr (fulfilments rs)"
  by (induction rs rule: rejections.induct) simp_all

text \<open>
  Claim C3. When the resolution of any change fails, \<open>createDraft\<close> throws one
  \<open>AggregateError\<close> whose causes are the reasons of all the failed changes, one for each
  and in their order. Its trace holds the resolution of every change and nothing else:
  all resolutions have settled before the failures are inspected, and no call to the
  remote service is made.
\<close>

theorem createDraft_aggregates_failures:
  assumes "c \<in> set changes" and "getCreateDraftPatchRequestFromChange ct c = Inl e"
  shows "createDraft conn ct draftType title changes options =
           (map ResolveChange changes,
            Inl (AggregateError
                   (rejections (map (getCreateDraftPatchRequestFromChange ct) changes))
                   ''Unable to create draft''))
         \<and> length (rejections (map (getCreateDraftPatchRequestFromChange ct) changes)) =
             length (filter (\<lambda>c. isl (getCreateDraftPatchRequestFromChange ct c)) changes)
         \<and> 0 < length (rejections (map (getCreateDraftPatchRequestFromChange ct) changes))"
proof -
  let ?results = "map (getCreateDraftPatchRequestFromChange ct) changes"
  have failed: "rejections ?results \<noteq> []"
    using assms by (rule rejections_map_nonempty)
  have nonempty: "changes \<noteq> []" using assms(1) by auto
  obtain ps fs u where collected: "collectResults ?results ([], [], None) = (ps, fs, u)"
    by (cases "collectResults ?results ([], [], None)") auto
  have fs: "fs = rejections ?results"
    using collectResults_failed [of ?results "[]" "[]" None] collected by simp
  have "createDraft conn ct draftType title changes options =
           (map ResolveChange changes, Inl (AggregateError (rejections ?results) ''Unable to create draft''))"
    unfolding createDraft_def io_allSettled_calls
    using failed nonempty by (simp add: collected fs io_throw_def)
  moreover have "length (rejections ?results) =
      length (filter (\<lambda>c. isl (getCreateDraftPatchRequestFromChange ct c)) changes)"
    by (rule rejections_length)
  moreover have "0 < length (rejections ?results)"
    using failed by simp
  ultimately show ?thesis by blast
qed

theorem createDraft_aggregates_failures_witness:
  "sampleChange ''bad'' ''c'' \<in> set [sampleChange ''c'' ''c'', sampleChange ''bad'' ''c'',
                                       sampleChange ''a'' ''b'', sampleChange ''bad'' ''d'']
   \<and> getCreateDraftPatchRequestFromChange sampleContainer (sampleChange ''bad'' ''c'') =
       Inl (Error ''Unable to diff bad and c'')
   \<and> createDraft sampleConnection sampleContainer ''patch'' ''t''
         [sampleChange ''c'' ''c'', sampleChange ''bad'' ''c'', sampleChange ''a'' ''b'',
          sampleChange ''bad'' ''d''] None =
       (map ResolveChange
          [sampleChange ''c'' ''c'', sampleChange ''bad'' ''c'', sampleChange ''a'' ''b'',
           sampleChange ''bad'' ''d''],
        Inl (AggregateError
               [Error ''Unable to diff bad and c'', Error ''Unable to diff bad and d'']
               ''Unable to create draft''))"
proof -
  have listed:
    "sampleChange ''bad'' ''c'' \<in> set [sampleChange ''c'' ''c'', sampleChange ''bad'' ''c'',
                                         sampleChange ''a'' ''b'', sampleChange ''bad'' ''d'']"
    by simp
  have fails: "getCreateDraftPatchRequestFromChange sampleContainer (sampleChange ''bad'' c) =
      Inl (Error (''Unable to diff bad and '' @ c))" for c
    by (simp add: getCreateDraftPatchRequestFromChange_def sampleChange_def sampleContainer_def
        sampleRepository_def Let_def)
  have resolves:
    "\<exists>r. getCreateDraftPatchRequestFromChange sampleContainer (sampleChange ''c'' ''c'') = Inr r"
    "\<exists>r. getCreateDraftPatchRequestFromChange sampleContainer (sampleChange ''a'' ''b'') = Inr r"
    by (simp_all add: getCreateDraftPatchRequestFromChange_def sampleChange_def
        sampleContainer_def sampleRepository_def Let_def)
  note aggregate =
    createDraft_aggregates_failures
      [OF listed fails, of sampleConnection "''patch''" "''t''" None]
  from resolves obtain r1 r2 where
    "getCreateDraftPatchRequestFromChange sampleContainer (sampleChange ''c'' ''c'') = Inr r1"
    "getCreateDraftPatchRequestFromChange sampleContainer (sampleChange ''a'' ''b'') = Inr r2"
    by blast
  with listed fails aggregate show ?thesis by simp
qed

subsection \<open>Creating a draft: what a returned draft holds\<close>

lemma uploadPatches_result:
  assumes "snd (uploadPatches conn ct rps prs i acc) = Inr ps"
  shows "\<exists>new. ps = acc @ new \<and> length new = length rps
               \<and> list_all2 hydrated (take (length rps) (drop i prs)) new"
  using assms
proof (induction rps arbitrary: i acc)
  case Nil
  then show ?case by simp
next
  case (Cons patch rest)
  from Cons.prems have inside: "i < length prs"
    by (simp split: if_splits)
  with Cons.prems obtain contents where contents: "pfc_contents (prs ! i) = Some contents"
    by (cases "pfc_contents (prs ! i)") simp_all
  from Cons.prems inside contents obtain newPatch where
    rest: "snd (uploadPatches conn ct rest prs (Suc i) (acc @ [newPatch])) = Inr ps"
    and new: "hydrated (prs ! i) newPatch"
    by (auto simp: Let_def hydrated_def formatPatch_def elim!: io_bind_snd_InrE)
  from Cons.IH [OF rest] obtain more where
    "length more = length rest" "ps = (acc @ [newPatch]) @ more"
    "list_all2 hydrated (take (length rest) (drop (Suc i) prs)) more"
    by blast
  moreover have "take (length (patch # rest)) (drop i prs) =
      prs ! i # take (length rest) (drop (Suc i) prs)"
    using inside by (simp add: Cons_nth_drop_Suc [symmetric])
  ultimately show ?case using new by simp
qed


lemma createDraft_returns_inv:
  assumes "snd (createDraft conn ct draftType title changes options) = Inr draft"
      and "collectResults (map (getCreateDraftPatchRequestFromChange ct) changes) ([], [], None) =
             (patchRequests, failed, user)"
  shows "changes \<noteq> [] \<and> failed = []
       \<and> (\<exists>draftId auth rsp createChangeset patches.
             fetchGkDevApi_ChangesetCreate conn
               \<lparr> ar_path = ''v1/drafts/'' @ draftId @ ''/changesets'', ar_method = ''POST'',
                 ar_body =
                   Some (ChangesetBody
                     \<lparr> ccr_gitUserName = (case user of None \<Rightarrow> None | Some u \<Rightarrow> gu_name u),
                       ccr_gitUserEmail = (case user of None \<Rightarrow> None | Some u \<Rightarrow> gu_email u),
                       ccr_patches = map pfc_patch patchRequests \<rparr>),
                 ar_headers = auth, ar_query = None \<rparr> = Inr rsp
           \<and> rsp_json rsp = Inr (Data createChangeset)
           \<and> snd (uploadPatches conn ct (dcc_patches createChangeset) patchRequests 0 []) = Inr patches
           \<and> d_changesets draft =
               Some [(formatChangeset (changesetWithoutPatches createChangeset))
                       \<lparr> dc_patches := patches \<rparr>])"
  using assms
  apply (simp only: createDraft_def io_allSettled_calls io_bind_Inr snd_conv)
  apply (cases failed)
   apply (simp_all split: if_splits)
  apply (elim io_bind_snd_InrE)
  apply (auto simp: Let_def snd_handleBadDraftResponse split: if_splits option.splits prod.splits list.splits dest!: snd_json_data elim!: io_bind_snd_InrE)
  apply (intro exI conjI, assumption, assumption, assumption, rule refl)+
  done

lemma list_all2_hydrated_maps:
  assumes "list_all2 hydrated rs ps"
  shows "map dp_contents ps = map pfc_contents rs
       \<and> map dp_repository ps = map (\<lambda>r. Some (IsRepository (pfc_repository r))) rs
       \<and> list_all (\<lambda>p. dp_files p \<noteq> None) ps"
  using assms by (induction rule: list_all2_induct) (simp_all add: hydrated_def)

lemma nonEmpty_contents:
  "list_all (\<lambda>c. truthy_string c) (map pfc_contents (filter nonEmptyDiff rs))"
  by (induction rs) (simp_all add: nonEmptyDiff_def)

lemma createDraft_returned_patches:
  assumes returns: "snd (createDraft conn ct draftType title changes options) = Inr draft"
      and ack: "\<forall>req rsp b d.
                  fetchGkDevApi_ChangesetCreate conn req = Inr rsp \<longrightarrow>
                  ar_body req = Some (ChangesetBody b) \<longrightarrow>
                  rsp_json rsp = Inr (Data d) \<longrightarrow>
                  length (dcc_patches d) = length (ccr_patches b)"
  shows "changes \<noteq> []
       \<and> (\<exists>resolved cs.
             map (getCreateDraftPatchRequestFromChange ct) changes = map Inr resolved
           \<and> d_changesets draft = Some [cs]
           \<and> map dp_contents (dc_patches cs) = map pfc_contents (filter nonEmptyDiff resolved)
           \<and> map dp_repository (dc_patches cs) =
               map (\<lambda>r. Some (IsRepository (pfc_repository r))) (filter nonEmptyDiff resolved)
           \<and> list_all (\<lambda>p. truthy_string (dp_contents p) \<and> dp_files p \<noteq> None) (dc_patches cs))"
proof -
  let ?results = "map (getCreateDraftPatchRequestFromChange ct) changes"
  obtain patchRequests failed user where
    collected: "collectResults ?results ([], [], None) = (patchRequests, failed, user)"
    by (cases "collectResults ?results ([], [], None)") auto
  from createDraft_returns_inv [OF returns collected]
  obtain draftId auth rsp createChangeset patches where
    nonempty: "changes \<noteq> []" and none_failed: "failed = []"
    and sent: "fetchGkDevApi_ChangesetCreate conn
               \<lparr> ar_path = ''v1/drafts/'' @ draftId @ ''/changesets'', ar_method = ''POST'',
                 ar_body =
                   Some (ChangesetBody
                     \<lparr> ccr_gitUserName = (case user of None \<Rightarrow> None | Some u \<Rightarrow> gu_name u),
                       ccr_gitUserEmail = (case user of None \<Rightarrow> None | Some u \<Rightarrow> gu_email u),
                       ccr_patches = map pfc_patch patchRequests \<rparr>),
                 ar_headers = auth, ar_query = None \<rparr> = Inr rsp"
    and answer: "rsp_json rsp = Inr (Data createChangeset)"
    and uploaded: "snd (uploadPatches conn ct (dcc_patches createChangeset) patchRequests 0 []) =
                     Inr patches"
    and changesets: "d_changesets draft =
               Some [(formatChangeset (changesetWithoutPatches createChangeset))
                       \<lparr> dc_patches := patches \<rparr>]"
    by blast
  have requests: "patchRequests = filter nonEmptyDiff (fulfilments ?results)"
    using collectResults_patchRequests [of ?results "[]" "[]" None] collected by simp
  have "rejections ?results = []"
    using collectResults_failed [of ?results "[]" "[]" None] collected none_failed by simp
  then have valid: "?results = map Inr (fulfilments ?results)"
    by (rule rejections_none)
  have "length (dcc_patches createChangeset) = length patchRequests"
    using ack [rule_format, OF sent _ answer] by simp
  with uploadPatches_result [OF uploaded]
  have "list_all2 hydrated patchRequests patches"
    by auto
  from list_all2_hydrated_maps [OF this]
  have contents: "map dp_contents patches = map pfc_contents patchRequests"
    and repos: "map dp_repository patches =
                  map (\<lambda>r. Some (IsRepository (pfc_repository r))) patchRequests"
    and files: "list_all (\<lambda>p. dp_files p \<noteq> None) patches"
    by simp_all
  have "list_all truthy_string (map dp_contents patches)"
    unfolding contents requests by (rule nonEmpty_contents)
  with files have "list_all (\<lambda>p. truthy_string (dp_contents p) \<and> dp_files p \<noteq> None) patches"
    by (simp add: list_all_iff)
  with nonempty valid changesets contents repos requests show ?thesis
    by (intro conjI exI [of _ "fulfilments ?results"]
        exI [of _ "(formatChangeset (changesetWithoutPatches createChangeset))
                       \<lparr> dc_patches := patches \<rparr>"]) simp_all
qed

text \<open>What the sample git resolves a change to.\<close>

lemma resolve_sample:
  "getCreateDraftPatchRequestFromChange sampleContainer (sampleChange from to) =
     (if from = ''bad'' then Inl (Error (''Unable to diff '' @ from @ '' and '' @ to))
      else Inr \<lparr> pfc_patch =
                   \<lparr> cpr_baseCommitSha = from,
                     cpr_baseBranchName = ''main'',
                     cpr_gitRepoData = \<lparr> rq_initialCommitSha = Some ''abc1234def'', rq_remote = None,
                                         rq_provider = None \<rparr>,
                     cpr_prEntityId = None \<rparr>,
                 pfc_contents = Some (if from = to then '''' else ''diff '' @ from @ '' '' @ to),
                 pfc_repository = sampleRepository,
                 pfc_user = Some \<lparr> gu_name = Some ''Ada'', gu_email = None \<rparr> \<rparr>)"
  by (simp add: getCreateDraftPatchRequestFromChange_def sampleChange_def sampleContainer_def Let_def)

lemma sampleConnection_acknowledges:
  "\<forall>req rsp b d.
     fetchGkDevApi_ChangesetCreate sampleConnection req = Inr rsp \<longrightarrow>
     ar_body req = Some (ChangesetBody b) \<longrightarrow>
     rsp_json rsp = Inr (Data d) \<longrightarrow>
     length (dcc_patches d) = length (ccr_patches b)"
  by (auto simp: sampleConnection_def okResponse_def)

lemma uploadPatches_succeeds:
  assumes stored: "\<forall>req. \<exists>rsp. conn_fetch conn req = Inr rsp"
      and files: "\<forall>path contents. \<exists>f. git_getDiffFiles ct path contents = Inr f"
      and present: "list_all (\<lambda>r. pfc_contents r \<noteq> None) prs"
      and enough: "i + length rps \<le> length prs"
  shows "\<exists>ps. snd (uploadPatches conn ct rps prs i acc) = Inr ps"
  using enough
proof (induction rps arbitrary: i acc)
  case Nil
  show ?case by simp
next
  case (Cons patch rest)
  then have inside: "i < length prs" by simp
  with present obtain contents where contents: "pfc_contents (prs ! i) = Some contents"
    by (auto simp: list_all_length)
  obtain f where f: "git_getDiffFiles ct (repo_path (pfc_repository (prs ! i))) (Some contents) = Inr f"
    using files by blast
  from stored obtain S where S: "\<And>req. conn_fetch conn req = Inr (S req)"
    by metis
  from Cons.prems have "Suc i + length rest \<le> length prs" by simp
  from Cons.IH [OF this] have "\<And>acc. \<exists>ps. snd (uploadPatches conn ct rest prs (Suc i) acc) = Inr ps"
    by blast
  then show ?case
    using inside by (simp add: contents f S snd_io_bind Let_def)
qed

lemma createDraft_returns_on_accepting_service:
  assumes nonempty: "changes \<noteq> []"
      and valid: "\<forall>c \<in> set changes. \<exists>r. getCreateDraftPatchRequestFromChange ct c = Inr r"
      and kind: "draftType \<noteq> ''suggested_pr_change''"
      and created: "\<forall>req. \<exists>rsp d. fetchGkDevApi_CreateDraft conn req = Inr rsp \<and> rsp_ok rsp
                      \<and> rsp_json rsp = Inr (Data d)"
      and changeset: "\<forall>req. \<exists>rsp d. fetchGkDevApi_ChangesetCreate conn req = Inr rsp \<and> rsp_ok rsp
                      \<and> rsp_json rsp = Inr (Data d)"
      and ack: "\<forall>req rsp b d.
                  fetchGkDevApi_ChangesetCreate conn req = Inr rsp \<longrightarrow>
                  ar_body req = Some (ChangesetBody b) \<longrightarrow>
                  rsp_json rsp = Inr (Data d) \<longrightarrow>
                  length (dcc_patches d) = length (ccr_patches b)"
      and published: "\<forall>req. \<exists>rsp. fetchGkDevApi_Unread conn req = Inr rsp \<and> rsp_ok rsp"
      and fetched: "\<forall>req. \<exists>rsp d. fetchGkDevApi_Draft conn req = Inr rsp \<and> rsp_ok rsp
                      \<and> rsp_json rsp = Inr (Data d)"
      and stored: "\<forall>req. \<exists>rsp. conn_fetch conn req = Inr rsp"
      and files: "\<forall>path contents. \<exists>f. git_getDiffFiles ct path contents = Inr f"
      and account: "\<exists>a. subscription_getSubscription ct = Inr a"
  shows "\<exists>draft. snd (createDraft conn ct draftType title changes options) = Inr draft"
proof -
  let ?results = "map (getCreateDraftPatchRequestFromChange ct) changes"
  obtain patchRequests failed user where
    collected: "collectResults ?results ([], [], None) = (patchRequests, failed, user)"
    by (cases "collectResults ?results ([], [], None)") auto
  have "rejections ?results = []"
    using valid by (induction changes) auto
  then have failed: "failed = []"
    using collectResults_failed [of ?results "[]" "[]" None] collected by simp
  have requests: "patchRequests = filter nonEmptyDiff (fulfilments ?results)"
    using collectResults_patchRequests [of ?results "[]" "[]" None] collected by simp
  have present: "list_all (\<lambda>r. pfc_contents r \<noteq> None) patchRequests"
    unfolding requests by (auto simp: list_all_iff nonEmptyDiff_def elim: truthy_string.elims)
  from created obtain C1 D1 where
    c1: "\<And>req. fetchGkDevApi_CreateDraft conn req = Inr (C1 req)"
        "\<And>req. rsp_ok (C1 req)" "\<And>req. rsp_json (C1 req) = Inr (Data (D1 req))"
    by metis
  from changeset obtain C2 D2 where
    c2: "\<And>req. fetchGkDevApi_ChangesetCreate conn req = Inr (C2 req)"
        "\<And>req. rsp_ok (C2 req)" "\<And>req. rsp_json (C2 req) = Inr (Data (D2 req))"
    by metis
  from published obtain C3 where
    c3: "\<And>req. fetchGkDevApi_Unread conn req = Inr (C3 req)" "\<And>req. rsp_ok (C3 req)"
    by metis
  from fetched obtain C4 D4 where
    c4: "\<And>req. fetchGkDevApi_Draft conn req = Inr (C4 req)"
        "\<And>req. rsp_ok (C4 req)" "\<And>req. rsp_json (C4 req) = Inr (Data (D4 req))"
    by metis
  from account obtain a where a: "subscription_getSubscription ct = Inr a"
    by blast
  have counted: "length (dcc_patches (D2 req)) = length patchRequests"
    if "ar_body req = Some (ChangesetBody b)" "ccr_patches b = map pfc_patch patchRequests"
    for req b
    using ack [rule_format, OF c2(1) that(1) c2(3)] that(2) by simp
  have up: "\<exists>ps. snd (uploadPatches conn ct (dcc_patches (D2 req)) patchRequests 0 []) = Inr ps"
    if "ar_body req = Some (ChangesetBody b)" "ccr_patches b = map pfc_patch patchRequests"
    for req b
    using uploadPatches_succeeds [OF stored files present, of 0 "dcc_patches (D2 req)" "[]"]
      counted [OF that] by simp
  have "\<exists>ps. snd (uploadPatches conn ct
                   (dcc_patches (D2 \<lparr> ar_path = p, ar_method = m,
                      ar_body = Some (ChangesetBody
                                  \<lparr> ccr_gitUserName = n, ccr_gitUserEmail = e,
                                    ccr_patches = map pfc_patch patchRequests \<rparr>),
                      ar_headers = h, ar_query = q \<rparr>)) patchRequests 0 []) = Inr ps"
    for p m n e h q
    by (rule up [where b = "\<lparr> ccr_gitUserName = n, ccr_gitUserEmail = e,
                              ccr_patches = map pfc_patch patchRequests \<rparr>"]) simp_all
  then obtain U where
    uploaded: "\<And>p m n e h q. snd (uploadPatches conn ct
                   (dcc_patches (D2 \<lparr> ar_path = p, ar_method = m,
                      ar_body = Some (ChangesetBody
                                  \<lparr> ccr_gitUserName = n, ccr_gitUserEmail = e,
                                    ccr_patches = map pfc_patch patchRequests \<rparr>),
                      ar_headers = h, ar_query = q \<rparr>)) patchRequests 0 []) = Inr (U p m n e h q)"
    by metis
  show ?thesis
    unfolding createDraft_def io_allSettled_calls
    using nonempty kind
    by (simp add: snd_io_bind collected failed c1 c2 c3 c4 a uploaded json_data_def io_defs Let_def)
qed

text \<open>
  Claim C1. On a service that answers a changeset creation with one patch for each patch
  of the request: for a non-empty list of changes that all resolve, a draft type other
  than \<open>suggested_pr_change\<close> (which needs provider auth besides), and a host and
  service that accept every call, \<open>createDraft\<close> returns a draft; and whenever
  \<open>createDraft\<close> returns a draft, for any draft type, the list of changes was not empty,
  every change resolved, and the draft has exactly one changeset, whose patches are, one
  for one and in the order of the input, the changes that resolved to a non-empty diff:
  each patch carries the contents and the repository of its change, its contents are not
  empty and its file list is present.
\<close>

theorem createDraft_patches:
  assumes ack: "\<forall>req rsp b d.
                  fetchGkDevApi_ChangesetCreate conn req = Inr rsp \<longrightarrow>
                  ar_body req = Some (ChangesetBody b) \<longrightarrow>
                  rsp_json rsp = Inr (Data d) \<longrightarrow>
                  length (dcc_patches d) = length (ccr_patches b)"
  shows "(changes \<noteq> []
          \<and> (\<forall>c \<in> set changes. \<exists>r. getCreateDraftPatchRequestFromChange ct c = Inr r)
          \<and> draftType \<noteq> ''suggested_pr_change''
          \<and> (\<forall>req. \<exists>rsp d. fetchGkDevApi_CreateDraft conn req = Inr rsp \<and> rsp_ok rsp
                 \<and> rsp_json rsp = Inr (Data d))
          \<and> (\<forall>req. \<exists>rsp d. fetchGkDevApi_ChangesetCreate conn req = Inr rsp \<and> rsp_ok rsp
                 \<and> rsp_json rsp = Inr (Data d))
          \<and> (\<forall>req. \<exists>rsp. fetchGkDevApi_Unread conn req = Inr rsp \<and> rsp_ok rsp)
          \<and> (\<forall>req. \<exists>rsp d. fetchGkDevApi_Draft conn req = Inr rsp \<and> rsp_ok rsp
                 \<and> rsp_json rsp = Inr (Data d))
          \<and> (\<forall>req. \<exists>rsp. conn_fetch conn req = Inr rsp)
          \<and> (\<forall>path contents. \<exists>f. git_getDiffFiles ct path contents = Inr f)
          \<and> (\<exists>a. subscription_getSubscription ct = Inr a)
        \<longrightarrow> (\<exists>returned. snd (createDraft conn ct draftType title changes options) = Inr returned))
       \<and> (snd (createDraft conn ct draftType title changes options) = Inr draft
        \<longrightarrow> changes \<noteq> []
          \<and> (\<exists>resolved cs.
                map (getCreateDraftPatchRequestFromChange ct) changes = map Inr resolved
              \<and> d_changesets draft = Some [cs]
              \<and> map dp_contents (dc_patches cs) = map pfc_contents (filter nonEmptyDiff resolved)
              \<and> map dp_repository (dc_patches cs) =
                  map (\<lambda>r. Some (IsRepository (pfc_repository r))) (filter nonEmptyDiff resolved)
              \<and> list_all (\<lambda>p. truthy_string (dp_contents p) \<and> dp_files p \<noteq> None)
                  (dc_patches cs)))"
proof (intro conjI impI)
  assume accepting: "changes \<noteq> []
          \<and> (\<forall>c \<in> set changes. \<exists>r. getCreateDraftPatchRequestFromChange ct c = Inr r)
          \<and> draftType \<noteq> ''suggested_pr_change''
          \<and> (\<forall>req. \<exists>rsp d. fetchGkDevApi_CreateDraft conn req = Inr rsp \<and> rsp_ok rsp
                 \<and> rsp_json rsp = Inr (Data d))
          \<and> (\<forall>req. \<exists>rsp d. fetchGkDevApi_ChangesetCreate conn req = Inr rsp \<and> rsp_ok rsp
                 \<and> rsp_json rsp = Inr (Data d))
          \<and> (\<forall>req. \<exists>rsp. fetchGkDevApi_Unread conn req = Inr rsp \<and> rsp_ok rsp)
          \<and> (\<forall>req. \<exists>rsp d. fetchGkDevApi_Draft conn req = Inr rsp \<and> rsp_ok rsp
                 \<and> rsp_json rsp = Inr (Data d))
          \<and> (\<forall>req. \<exists>rsp. conn_fetch conn req = Inr rsp)
          \<and> (\<forall>path contents. \<exists>f. git_getDiffFiles ct path contents = Inr f)
          \<and> (\<exists>a. subscription_getSubscription ct = Inr a)"
  then show "\<exists>returned. snd (createDraft conn ct draftType title changes options) = Inr returned"
    by (intro createDraft_returns_on_accepting_service ack) blast+
next
  assume returns: "snd (createDraft conn ct draftType title changes options) = Inr draft"
  from createDraft_returned_patches [OF returns ack]
  show "changes \<noteq> []" by blast
  from createDraft_returned_patches [OF returns ack]
  show "\<exists>resolved cs.
                map (getCreateDraftPatchRequestFromChange ct) changes = map Inr resolved
              \<and> d_changesets draft = Some [cs]
              \<and> map dp_contents (dc_patches cs) = map pfc_contents (filter nonEmptyDiff resolved)
              \<and> map dp_repository (dc_patches cs) =
                  map (\<lambda>r. Some (IsRepository (pfc_repository r))) (filter nonEmptyDiff resolved)
              \<and> list_all (\<lambda>p. truthy_string (dp_contents p) \<and> dp_files p \<noteq> None)
                  (dc_patches cs)"
    by blast
qed

theorem createDraft_patches_witness:
  "\<exists>draft cs.
      snd (createDraft sampleConnection sampleContainer ''patch'' ''t''
             [sampleChange ''a'' ''b'', sampleChange ''c'' ''c'', sampleChange ''x'' ''y''] None) =
        Inr draft
      \<and> d_changesets draft = Some [cs]
      \<and> map dp_contents (dc_patches cs) = [Some ''diff a b'', Some ''diff x y'']"
proof -
  let ?changes = "[sampleChange ''a'' ''b'', sampleChange ''c'' ''c'', sampleChange ''x'' ''y'']"
  note patches =
    createDraft_patches
      [OF sampleConnection_acknowledges, of ?changes sampleContainer "''patch''" "''t''" None]
  have accepting: "?changes \<noteq> []
          \<and> (\<forall>c \<in> set ?changes. \<exists>r. getCreateDraftPatchRequestFromChange sampleContainer c = Inr r)
          \<and> ''patch'' \<noteq> ''suggested_pr_change''
          \<and> (\<forall>req. \<exists>rsp d. fetchGkDevApi_CreateDraft sampleConnection req = Inr rsp \<and> rsp_ok rsp
                 \<and> rsp_json rsp = Inr (Data d))
          \<and> (\<forall>req. \<exists>rsp d. fetchGkDevApi_ChangesetCreate sampleConnection req = Inr rsp
                 \<and> rsp_ok rsp \<and> rsp_json rsp = Inr (Data d))
          \<and> (\<forall>req. \<exists>rsp. fetchGkDevApi_Unread sampleConnection req = Inr rsp \<and> rsp_ok rsp)
          \<and> (\<forall>req. \<exists>rsp d. fetchGkDevApi_Draft sampleConnection req = Inr rsp \<and> rsp_ok rsp
                 \<and> rsp_json rsp = Inr (Data d))
          \<and> (\<forall>req. \<exists>rsp. conn_fetch sampleConnection req = Inr rsp)
          \<and> (\<forall>path contents. \<exists>f. git_getDiffFiles sampleContainer path contents = Inr f)
          \<and> (\<exists>a. subscription_getSubscription sampleContainer = Inr a)"
    apply (simp add: resolve_sample)
    apply (simp add: sampleConnection_def okResponse_def sampleContainer_def)
    done
  with patches obtain draft where
    returns: "snd (createDraft sampleConnection sampleContainer ''patch'' ''t'' ?changes None) =
                Inr draft"
    by blast
  with patches [of draft]
  obtain resolved cs where
    valid: "map (getCreateDraftPatchRequestFromChange sampleContainer) ?changes = map Inr resolved"
    and one: "d_changesets draft = Some [cs]"
    and contents: "map dp_contents (dc_patches cs) = map pfc_contents (filter nonEmptyDiff resolved)"
    by blast
  from valid obtain r1 r2 r3 where
    "resolved = [r1, r2, r3]"
    "getCreateDraftPatchRequestFromChange sampleContainer (sampleChange ''a'' ''b'') = Inr r1"
    "getCreateDraftPatchRequestFromChange sampleContainer (sampleChange ''c'' ''c'') = Inr r2"
    "getCreateDraftPatchRequestFromChange sampleContainer (sampleChange ''x'' ''y'') = Inr r3"
    by (auto simp: map_eq_Cons_conv)
  then have "map pfc_contents (filter nonEmptyDiff resolved) = [Some ''diff a b'', Some ''diff x y'']"
    by (auto simp: resolve_sample nonEmptyDiff_def)
  with returns one contents show ?thesis by simp
qed

subsection \<open>Creating a draft: changes that resolve to an empty diff\<close>

lemma createDraft_without_empty_diff:
  assumes resolved: "getCreateDraftPatchRequestFromChange ct c = Inr r"
      and empty: "\<not> nonEmptyDiff r"
      and others: "before @ after \<noteq> []"
  shows "snd (createDraft conn ct draftType title (before @ c # after) options) =
           snd (createDraft conn ct draftType title (before @ after) options)
       \<and> drop (length (before @ c # after))
             (fst (createDraft conn ct draftType title (before @ c # after) options)) =
           drop (length (before @ after))
             (fst (createDraft conn ct draftType title (before @ after) options))"
proof -
  let ?f = "getCreateDraftPatchRequestFromChange ct"
  have r1: "(length (map ?f (before @ c # after)) = 0) = False"
    by simp
  have r2: "(length (map ?f (before @ after)) = 0) = False"
    using others by simp
  have r3: "collectResults (map ?f (before @ c # after)) acc =
              collectResults (map ?f (before @ after)) acc" for acc
    using collectResults_skips_empty [OF empty, of "map ?f before" "map ?f after" acc]
    by (simp add: resolved)
  have d1: "drop (length (before @ c # after)) (map ResolveChange (before @ c # after) @ t) = t" for t
    by simp
  have d2: "drop (length (before @ after)) (map ResolveChange (before @ after) @ t) = t" for t
    by simp
  show ?thesis
    unfolding createDraft_def io_allSettled_calls io_bind_Inr fst_conv snd_conv r1 r2 r3 d1 d2
    by (rule conjI; rule refl)
qed

lemma createDraft_no_changes:
  "createDraft conn ct draftType title [] options = ([], Inl (Error ''No changes found''))"
  by (simp add: createDraft_def io_allSettled_def io_throw_def)

text \<open>
  On the sample host a change that resolves to the empty diff is left out, and the draft
  is the one created without it.
\<close>

lemma createDraft_skips_empty_change:
  "\<exists>draft cs patch.
     snd (createDraft sampleConnection sampleContainer ''patch'' ''t''
            [sampleChange ''a'' ''b'', sampleChange ''c'' ''c''] None) = Inr draft
     \<and> snd (createDraft sampleConnection sampleContainer ''patch'' ''t''
              [sampleChange ''a'' ''b''] None) = Inr draft
     \<and> d_changesets draft = Some [cs] \<and> dc_patches cs = [patch]
     \<and> dp_contents patch = Some ''diff a b''"
proof -
  have resolved:
    "\<exists>r. getCreateDraftPatchRequestFromChange sampleContainer (sampleChange ''c'' ''c'') = Inr r
         \<and> \<not> nonEmptyDiff r"
    by (simp add: resolve_sample nonEmptyDiff_def)
  then obtain r where
    r: "getCreateDraftPatchRequestFromChange sampleContainer (sampleChange ''c'' ''c'') = Inr r"
       "\<not> nonEmptyDiff r"
    by blast
  have same:
    "snd (createDraft sampleConnection sampleContainer ''patch'' ''t''
            [sampleChange ''a'' ''b'', sampleChange ''c'' ''c''] None) =
     snd (createDraft sampleConnection sampleContainer ''patch'' ''t''
            [sampleChange ''a'' ''b''] None)"
    using createDraft_without_empty_diff
            [OF r, of "[sampleChange ''a'' ''b'']" "[]" sampleConnection "''patch''" "''t''" None]
    by simp
  have "\<exists>draft cs patch.
     snd (createDraft sampleConnection sampleContainer ''patch'' ''t''
            [sampleChange ''a'' ''b''] None) = Inr draft
     \<and> d_changesets draft = Some [cs] \<and> dc_patches cs = [patch]
     \<and> dp_contents patch = Some ''diff a b''"
    unfolding createDraft_def io_allSettled_calls
    apply (simp add: resolve_sample)
    apply (simp add: sampleConnection_def okResponse_def json_data_def io_defs formatPatch_def
        Let_def sampleContainer_def)
    done
  with same show ?thesis by auto
qed

text \<open>
  Claim C2 says that \<open>createDraft\<close> fails with the no-changes error, before any remote
  call, when no non-empty patch remains. The code makes that test on the number of
  changes, before it leaves the empty diffs out, and not again afterwards. On the sample
  host the only change resolves to the empty diff; \<open>createDraft\<close> nevertheless sends the
  draft creation and returns a draft whose changeset has no patch. For a draft of the type
  \<open>suggested_pr_change\<close> the same change makes it read the repository of a first patch
  request that does not exist, and it fails with a \<open>TypeError\<close> instead.
\<close>

theorem createDraft_only_empty_change_proceeds:
  "map_sum id pfc_contents
      (getCreateDraftPatchRequestFromChange sampleContainer (sampleChange ''c'' ''c'')) =
     Inr (Some '''')
   \<and> FetchGkDevApi
       \<lparr> ar_path = ''v1/drafts'', ar_method = ''POST'',
         ar_body = Some (CreateDraftBody \<lparr> cdr_type = ''patch'', cdr_title = ''t'',
                                          cdr_description = None, cdr_visibility = ''public'' \<rparr>),
         ar_headers = None, ar_query = None \<rparr>
     \<in> set (fst (createDraft sampleConnection sampleContainer ''patch'' ''t''
                     [sampleChange ''c'' ''c''] None))
   \<and> snd (createDraft sampleConnection sampleContainer ''patch'' ''t''
            [sampleChange ''c'' ''c''] None) \<noteq> Inl (Error ''No changes found'')
   \<and> (\<exists>draft cs.
         snd (createDraft sampleConnection sampleContainer ''patch'' ''t''
                [sampleChange ''c'' ''c''] None) = Inr draft
         \<and> d_changesets draft = Some [cs] \<and> dc_patches cs = [])
   \<and> createDraft sampleConnection sampleContainer ''suggested_pr_change'' ''t''
        [sampleChange ''c'' ''c'']
        (Some \<lparr> cdo_description = None, cdo_visibility = None, cdo_prEntityId = Some ''pr1'' \<rparr>) =
       ([ResolveChange (sampleChange ''c'' ''c'')],
        Inl (TypeError ''Cannot read properties of undefined (reading 'repository')''))"
  unfolding createDraft_def io_allSettled_calls
  apply (simp add: resolve_sample)
  apply (simp add: sampleConnection_def okResponse_def json_data_def io_defs formatPatch_def
      Let_def sampleContainer_def)
  done

subsection \<open>Hydration of a patch\<close>

text \<open>
  \<open>formatPatch\<close> without options leaves both hydration fields unset, so the patches of
  \<open>getChangesets\<close> have neither; the patches \<open>createDraft\<close> builds have both.
\<close>

lemma formatPatch_unhydrated:
  "dp_contents (formatPatch patchResponse None) = None
   \<and> dp_files (formatPatch patchResponse None) = None"
  by (simp add: formatPatch_def)

lemma getChangesets_unhydrated:
  assumes "snd (getChangesets conn ident) = Inr changesets"
  shows "list_all (\<lambda>cs. list_all (\<lambda>p. dp_contents p = None \<and> dp_files p = None) (dc_patches cs))
           changesets"
proof -
  have each: "list_all (\<lambda>p. dp_contents p = None \<and> dp_files p = None)
                (dc_patches (formatChangeset c))" for c
    by (simp add: formatChangeset_def list_all_iff formatPatch_unhydrated)
  from assms obtain cs where "changesets = map formatChangeset cs"
    by (auto simp: getChangesets_def Let_def snd_handleBadDraftResponse
        split: if_splits option.splits elim!: io_bind_snd_InrE)
  with each show ?thesis by (simp add: list_all_iff)
qed

lemma createDraft_hydrated:
  assumes "snd (createDraft conn ct draftType title changes options) = Inr draft"
  shows "\<exists>cs. d_changesets draft = Some [cs]
              \<and> list_all (\<lambda>p. dp_contents p \<noteq> None \<and> dp_files p \<noteq> None) (dc_patches cs)"
proof -
  obtain patchRequests failed user where
    collected: "collectResults (map (getCreateDraftPatchRequestFromChange ct) changes)
                  ([], [], None) = (patchRequests, failed, user)"
    by (cases "collectResults (map (getCreateDraftPatchRequestFromChange ct) changes)
                 ([], [], None)") auto
  from createDraft_returns_inv [OF assms collected]
  obtain createChangeset patches where
    uploaded: "snd (uploadPatches conn ct (dcc_patches createChangeset) patchRequests 0 []) =
                 Inr patches"
    and changesets: "d_changesets draft =
               Some [(formatChangeset (changesetWithoutPatches createChangeset))
                       \<lparr> dc_patches := patches \<rparr>]"
    by blast
  from uploadPatches_result [OF uploaded] obtain rs where "list_all2 hydrated rs patches"
    by auto
  then have "list_all (\<lambda>p. dp_contents p \<noteq> None \<and> dp_files p \<noteq> None) patches"
    by (induction rule: list_all2_induct) (simp_all add: hydrated_def)
  with changesets show ?thesis by simp
qed

text \<open>
  Claim C7 says that the \<open>contents\<close> and \<open>files\<close> of every patch the service exposes are
  both present or both absent. \<open>getPatchDetails\<close> reads the settled download with
  \<open>getSettledValue\<close>, which turns a rejection into \<open>undefined\<close>, and then builds the file
  list all the same: on the server whose storage cannot be reached, \<open>getPatch\<close> and
  \<open>getPatchDetails\<close> return a patch whose file list is present (and empty) and whose
  contents are absent.
\<close>

theorem getPatch_files_without_contents:
  "map_sum id dp_secureLink (snd (getPatchCore unreachableStorageConnection ''p1'')) =
     Inr (Some \<lparr> sd_url = ''https://storage/p1'', sd_method = ''GET'', sd_headers = [] \<rparr>)
   \<and> conn_fetch unreachableStorageConnection
        \<lparr> rr_url = ''https://storage/p1'', rr_method = ''GET'',
          rr_headers = [(''Accept'', ''text/plain'')], rr_body = None \<rparr> =
       Inl (Error ''network error'')
   \<and> (\<exists>patch. snd (getPatch unreachableStorageConnection sampleContainer ''p1'') = Inr patch
         \<and> dp_contents patch = None \<and> dp_files patch = Some [])
   \<and> (\<exists>details.
         snd (getPatchDetails unreachableStorageConnection sampleContainer (Inl ''p1'')) =
           Inr details
         \<and> dpd_contents details = None \<and> dpd_files details = [])"
  by (simp add: getPatch_def getPatchDetails_def getPatchCore_def getPatchContentsCore_def
      getRepositoryOrIdentity_def getRepositoryIdentity_def json_data_def formatPatch_def
      unreachableStorageConnection_def sampleConnection_def sampleContainer_def
      samplePatchResponse_def sampleIdentityResponse_def okResponse_def io_defs Let_def)

end
